theory Spec2Isabelle
  imports Complex_Main
begin

section \<open>Decoded JSON values and Python dictionaries\<close>

text \<open>
  A decoded JSON document, as \<^verbatim>\<open>response.json()\<close> hands it to the client. An object is a
  Python \<^verbatim>\<open>dict\<close>: an association list in insertion order. Numbers are Python ints or
  floats; a float is taken as the real number it denotes, and sums and comparisons of
  floats are exact: NaN, the infinities and the rounding of float arithmetic are not
  modelled. What is modelled is the \<^verbatim>\<open>OverflowError\<close> of adding an int that no float can
  hold (see \<open>as_float\<close>).
\<close>

datatype json =
    JNull
  | JBool bool
  | JInt int
  | JFloat real
  | JStr string
  | JArr "json list"
  | JObj "(string \<times> json) list"

type_synonym dict = "(string \<times> json) list"

text \<open>\<^verbatim>\<open>d[k] = v\<close>: an existing key keeps its position, a new key goes last.\<close>

fun dict_set :: "dict \<Rightarrow> string \<Rightarrow> json \<Rightarrow> dict" where
  "dict_set [] k v = [(k, v)]"
| "dict_set ((k', v') # d) k v =
     (if k' = k then (k, v) # d else (k', v') # dict_set d k v)"

section \<open>Errors\<close>

record http_response =
  status_code :: int
  body :: "json option"   \<comment> \<open>\<open>None\<close>: the body is not JSON, \<^verbatim>\<open>response.json()\<close> raises\<close>

datatype ResourceType = CONTEXT | VISION

text \<open>
  The exceptions the client raises or lets through. The text of an f-string message is
  kept as the values it is formatted from.
\<close>

datatype message =
    Text string
  | ErrorData json                               \<comment> \<open>\<^verbatim>\<open>RuntimeError(data)\<close>\<close>
  | FailedToGetToken http_response               \<comment> \<open>\<^verbatim>\<open>Failed to get token with {response=}\<close>\<close>
  | FailedToSubmit http_response                 \<comment> \<open>\<^verbatim>\<open>Failed to submit context with {response=}\<close>\<close>
  | FailedToCheck ResourceType json              \<comment> \<open>\<^verbatim>\<open>Failed to check{resource_type} {resource_id}\<close>\<close>
  | WasNotFound ResourceType json http_response  \<comment> \<open>\<^verbatim>\<open>{resource_type} {resource_id} was not found with {response=}\<close>\<close>
  | Retried int int json                         \<comment> \<open>\<^verbatim>\<open>Retried {retries} times for {max_time}s with {error=}\<close>\<close>

datatype error =
    ValueError message
  | RuntimeError message
  | RetryableError message
  | TypeError
  | KeyError string
  | JSONDecodeError
  | OverflowError
  | TransportError string    \<comment> \<open>an exception of the HTTP library itself\<close>

section \<open>The world: clock, remote servers, observable events\<close>

datatype payload = FormData dict | JsonBody json

datatype request =
    POST string "(string \<times> string) list" payload
  | GET string "(string \<times> string) list"

datatype event =
    Request request
  | Sleep int          \<comment> \<open>\<^verbatim>\<open>asyncio.sleep(check_interval)\<close>\<close>
  | BackoffSleep nat   \<comment> \<open>a jittered wait of the retry decorator, at most so many seconds\<close>

text \<open>
  \<open>clock w n\<close> is what the \<open>n\<close>-th call of \<^verbatim>\<open>time.time()\<close> returns. \<open>server w\<close> answers a
  request given the events before it: \<open>Inr\<close> a response, or \<open>Inl\<close> when the HTTP library
  raises instead of returning one (no connection, a timeout). \<open>py_str w\<close> is Python's
  \<^verbatim>\<open>str()\<close> on a decoded value that is not a string. These three never change; \<open>ticks\<close>
  counts the clock reads and \<open>trace\<close> lists the events so far, oldest first.
\<close>

record world =
  clock :: "nat \<Rightarrow> real"
  server :: "event list \<Rightarrow> request \<Rightarrow> string + http_response"
  py_str :: "json \<Rightarrow> string"
  ticks :: nat
  trace :: "event list"

definition time_time :: "world \<Rightarrow> real \<times> world" where
  "time_time w = (clock w (ticks w), w\<lparr>ticks := Suc (ticks w)\<rparr>)"

definition send :: "world \<Rightarrow> request \<Rightarrow> (error + http_response) \<times> world" where
  "send w req =
     ((case server w (trace w) req of
         Inl reason \<Rightarrow> Inl (TransportError reason)
       | Inr response \<Rightarrow> Inr response),
      w\<lparr>trace := trace w @ [Request req]\<rparr>)"

definition sleep :: "world \<Rightarrow> int \<Rightarrow> world" where
  "sleep w seconds = w\<lparr>trace := trace w @ [Sleep seconds]\<rparr>"

definition backoff_sleep :: "world \<Rightarrow> nat \<Rightarrow> world" where
  "backoff_sleep w bound = w\<lparr>trace := trace w @ [BackoffSleep bound]\<rparr>"

text \<open>The f-string conversion \<^verbatim>\<open>{x}\<close> of a decoded value.\<close>

definition format :: "world \<Rightarrow> json \<Rightarrow> string" where
  "format w x = (case x of JStr s \<Rightarrow> s | _ \<Rightarrow> py_str w x)"

section \<open>The client\<close>

definition BASE_URL :: string where
  "BASE_URL = ''https://api.blackbird.ai''"

record Token =
  token :: json
  expiration_time :: real

fun resource_type_value :: "ResourceType \<Rightarrow> string" where
  "resource_type_value CONTEXT = ''compass/contextChecks''"
| "resource_type_value VISION = ''compass/visionAnalyses''"

record BlackbirdApiClient =
  auth_url :: string
  auth_payload :: dict
  token :: Token

type_synonym 'a result = "(error + 'a) \<times> BlackbirdApiClient \<times> world"

text \<open>
  An int operand of a float addition is converted to a float first. The conversion raises
  \<^verbatim>\<open>OverflowError\<close> when the int, rounded to nearest, is beyond the largest float,
  \<open>2 ^ 1024 - 2 ^ 971\<close>: that is from \<open>2 ^ 1024 - 2 ^ 970\<close> on. Below that bound the int is
  taken as it is: the rounding of an int of more than 53 bits is not modelled.
\<close>

definition as_float :: "int \<Rightarrow> error + real" where
  "as_float n =
     (if \<bar>n\<bar> \<ge> 2 ^ 1024 - 2 ^ 970 then Inl OverflowError else Inr (real_of_int n))"

text \<open>\<^verbatim>\<open>time.time() + expires_in\<close>: a number or a bool adds, anything else is a TypeError.\<close>

definition add_seconds :: "real \<Rightarrow> json \<Rightarrow> error + real" where
  "add_seconds now expires_in =
     (case expires_in of
        JInt n \<Rightarrow> (case as_float n of Inl e \<Rightarrow> Inl e | Inr x \<Rightarrow> Inr (now + x))
      | JFloat x \<Rightarrow> Inr (now + x)
      | JBool b \<Rightarrow> Inr (now + (if b then 1 else 0))
      | _ \<Rightarrow> Inl TypeError)"

text \<open>
  \<^verbatim>\<open>__new_token\<close>: one POST of the credentials; the decoded answer is matched against
  \<^verbatim>\<open>{"error": _}\<close>, then \<^verbatim>\<open>{"access_token": token, "expires_in": expires_in}\<close>.
\<close>

definition new_token :: "string \<Rightarrow> dict \<Rightarrow> world \<Rightarrow> (error + Token) \<times> world" where
  "new_token url data w =
     (case send w (POST url [] (FormData data)) of
        (Inl e, w1) \<Rightarrow> (Inl e, w1)
      | (Inr response, w1) \<Rightarrow>
          (case body response of
             None \<Rightarrow> (Inl JSONDecodeError, w1)
           | Some (JObj d) \<Rightarrow>
               (if map_of d ''error'' \<noteq> None then (Inl (RuntimeError (ErrorData (JObj d))), w1)
                else
                  (case map_of d ''access_token'' of
                     None \<Rightarrow> (Inl (RuntimeError (FailedToGetToken response)), w1)
                   | Some tok \<Rightarrow>
                       (case map_of d ''expires_in'' of
                          None \<Rightarrow> (Inl (RuntimeError (FailedToGetToken response)), w1)
                        | Some expires_in \<Rightarrow>
                            (case time_time w1 of
                               (now, w2) \<Rightarrow>
                                 (case add_seconds now expires_in of
                                    Inl e \<Rightarrow> (Inl e, w2)
                                  | Inr t \<Rightarrow>
                                      (Inr \<lparr>Token.token = tok, expiration_time = t\<rparr>, w2))))))
           | Some _ \<Rightarrow> (Inl (RuntimeError (FailedToGetToken response)), w1)))"

text \<open>
  \<^verbatim>\<open>if username and password\<close>: both given and non-empty.
\<close>

definition both :: "string option \<Rightarrow> string option \<Rightarrow> (string \<times> string) option" where
  "both a b =
     (case a of
        None \<Rightarrow> None
      | Some x \<Rightarrow>
          (case b of
             None \<Rightarrow> None
           | Some y \<Rightarrow> if x \<noteq> [] \<and> y \<noteq> [] then Some (x, y) else None))"

definition cognito_url :: string where
  "cognito_url = ''https://blackbird-ai.auth.us-west-2.amazoncognito.com/oauth2/token''"

definition credentials_message :: string where
  "credentials_message =
     ''Either username and password or client_id and client_secret must be provided''"

text \<open>\<^verbatim>\<open>__init__\<close>: choose the grant, then fetch the first token.\<close>

definition connect :: "string \<Rightarrow> dict \<Rightarrow> world \<Rightarrow> (error + BlackbirdApiClient) \<times> world" where
  "connect url data w =
     (case new_token url data w of
        (Inl e, w1) \<Rightarrow> (Inl e, w1)
      | (Inr t, w1) \<Rightarrow>
          (Inr \<lparr>auth_url = url, auth_payload = data, BlackbirdApiClient.token = t\<rparr>, w1))"

definition init ::
  "string option \<Rightarrow> string option \<Rightarrow> string option \<Rightarrow> string option \<Rightarrow> world
    \<Rightarrow> (error + BlackbirdApiClient) \<times> world" where
  "init client_id client_secret username password w =
     (case both username password of
        Some (u, p) \<Rightarrow>
          connect (BASE_URL @ ''/compass/token'')
            [(''username'', JStr u), (''password'', JStr p), (''grant_type'', JStr ''password'')] w
      | None \<Rightarrow>
          (case both client_id client_secret of
             Some (i, s) \<Rightarrow>
               connect cognito_url
                 [(''client_id'', JStr i), (''client_secret'', JStr s),
                  (''grant_type'', JStr ''client_credentials'')] w
           | None \<Rightarrow> (Inl (ValueError (Text credentials_message)), w)))"

text \<open>
  \<^verbatim>\<open>bearer_token\<close>: one clock read; a new token is fetched when
  \<^verbatim>\<open>time.time() - 0.5 > self.token.expiration_time\<close>.
\<close>

definition bearer_token :: "BlackbirdApiClient \<Rightarrow> world \<Rightarrow> string result" where
  "bearer_token c w =
     (case time_time w of
        (now, w1) \<Rightarrow>
          (if now - 0.5 > expiration_time (BlackbirdApiClient.token c) then
             (case new_token (auth_url c) (auth_payload c) w1 of
                (Inl e, w2) \<Rightarrow> (Inl e, c, w2)
              | (Inr t, w2) \<Rightarrow>
                  (Inr (''Bearer '' @ format w2 (Token.token t)),
                   c\<lparr>BlackbirdApiClient.token := t\<rparr>, w2))
           else
             (Inr (''Bearer '' @ format w1 (Token.token (BlackbirdApiClient.token c))), c, w1)))"

definition headers :: "BlackbirdApiClient \<Rightarrow> world \<Rightarrow> (string \<times> string) list result" where
  "headers c w =
     (case bearer_token c w of
        (Inl e, c1, w1) \<Rightarrow> (Inl e, c1, w1)
      | (Inr bearer, c1, w1) \<Rightarrow>
          (Inr [(''Authorization'', bearer), (''Content-Type'', ''application/json'')], c1, w1))"

subsection \<open>The retry decorator\<close>

text \<open>
  \<^verbatim>\<open>@backoff.on_exception(backoff.expo, RetryableError, max_tries=3)\<close>. The decorator is
  the backoff library's, which is not among the sources of the repository; it is modelled
  as the library documents it, which is also how the specification words the retry
  policy: the call is repeated while it raises \<^verbatim>\<open>RetryableError\<close> and fewer than
  \<open>max_tries\<close> calls were made, after a jittered wait of at most 1, 2, 4, ... seconds; the
  exception of the last call, and any other exception of any call, is raised to the caller.
  \<open>retry_exception left tries\<close> has made \<open>tries\<close> calls and may make \<open>left\<close> more after the
  next one.
\<close>

fun is_retryable :: "error \<Rightarrow> bool" where
  "is_retryable (RetryableError m) = True"
| "is_retryable e = False"

fun retry_exception ::
  "nat \<Rightarrow> nat \<Rightarrow> (BlackbirdApiClient \<Rightarrow> world \<Rightarrow> 'a result)
    \<Rightarrow> BlackbirdApiClient \<Rightarrow> world \<Rightarrow> 'a result" where
  "retry_exception 0 tries target c w = target c w"
| "retry_exception (Suc left) tries target c w =
     (case target c w of
        (Inr x, c1, w1) \<Rightarrow> (Inr x, c1, w1)
      | (Inl e, c1, w1) \<Rightarrow>
          (if is_retryable e
           then retry_exception left (Suc tries) target c1 (backoff_sleep w1 (2 ^ tries))
           else (Inl e, c1, w1)))"

definition on_exception ::
  "nat \<Rightarrow> (BlackbirdApiClient \<Rightarrow> world \<Rightarrow> 'a result)
    \<Rightarrow> BlackbirdApiClient \<Rightarrow> world \<Rightarrow> 'a result" where
  "on_exception max_tries target = retry_exception (max_tries - 1) 0 target"

subsection \<open>Submission\<close>

text \<open>\<^verbatim>\<open>data["id"]\<close> on a decoded value.\<close>

definition getitem :: "json \<Rightarrow> string \<Rightarrow> error + json" where
  "getitem data k =
     (case data of
        JObj d \<Rightarrow> (case map_of d k of None \<Rightarrow> Inl (KeyError k) | Some v \<Rightarrow> Inr v)
      | _ \<Rightarrow> Inl TypeError)"

definition submit_data :: "string \<Rightarrow> dict \<Rightarrow> dict" where
  "submit_data resource opts =
     (if opts \<noteq> [] then dict_set [(''input'', JStr resource)] ''options'' (JObj opts)
      else [(''input'', JStr resource)])"

definition submit_url :: "ResourceType \<Rightarrow> string" where
  "submit_url resource_type = BASE_URL @ ''/'' @ resource_type_value resource_type"

text \<open>The body of \<^verbatim>\<open>_submit_resource_type\<close>: one attempt.\<close>

definition submit_once ::
  "string \<Rightarrow> ResourceType \<Rightarrow> dict \<Rightarrow> BlackbirdApiClient \<Rightarrow> world \<Rightarrow> json result" where
  "submit_once resource resource_type opts c w =
     (case headers c w of
        (Inl e, c1, w1) \<Rightarrow> (Inl e, c1, w1)
      | (Inr hs, c1, w1) \<Rightarrow>
          (case send w1 (POST (submit_url resource_type) hs
                           (JsonBody (JObj (submit_data resource opts)))) of
             (Inl e, w2) \<Rightarrow> (Inl e, c1, w2)
           | (Inr response, w2) \<Rightarrow>
               (if status_code response = 200 \<or> status_code response = 202 then
                  (case body response of
                     None \<Rightarrow> (Inl JSONDecodeError, c1, w2)
                   | Some data \<Rightarrow> (getitem data ''id'', c1, w2))
                else if status_code response = 500 then
                  (Inl (RetryableError (FailedToSubmit response)), c1, w2)
                else (Inl (RuntimeError (FailedToSubmit response)), c1, w2))))"

definition submit_resource_type ::
  "BlackbirdApiClient \<Rightarrow> world \<Rightarrow> string \<Rightarrow> ResourceType \<Rightarrow> dict \<Rightarrow> json result" where
  "submit_resource_type c w resource resource_type opts =
     on_exception 3 (submit_once resource resource_type opts) c w"

subsection \<open>Status check\<close>

definition status_url :: "world \<Rightarrow> ResourceType \<Rightarrow> json \<Rightarrow> string" where
  "status_url w resource_type resource_id =
     BASE_URL @ ''/'' @ resource_type_value resource_type @ ''/'' @ format w resource_id"

text \<open>The body of \<^verbatim>\<open>_check_resource_type\<close>: one attempt.\<close>

definition check_once ::
  "json \<Rightarrow> ResourceType \<Rightarrow> BlackbirdApiClient \<Rightarrow> world \<Rightarrow> json result" where
  "check_once resource_id resource_type c w =
     (case headers c w of
        (Inl e, c1, w1) \<Rightarrow> (Inl e, c1, w1)
      | (Inr hs, c1, w1) \<Rightarrow>
          (case send w1 (GET (status_url w1 resource_type resource_id) hs) of
             (Inl e, w2) \<Rightarrow> (Inl e, c1, w2)
           | (Inr response, w2) \<Rightarrow>
               (if status_code response = 200 \<or> status_code response = 202 then
                  (case body response of
                     None \<Rightarrow> (Inl JSONDecodeError, c1, w2)
                   | Some data \<Rightarrow> (Inr data, c1, w2))
                else if status_code response = 500 then
                  (Inl (RetryableError (FailedToCheck resource_type resource_id)), c1, w2)
                else if 500 > status_code response \<and> status_code response \<ge> 400 then
                  (Inl (RuntimeError (WasNotFound resource_type resource_id response)), c1, w2)
                else (Inl (RuntimeError (FailedToSubmit response)), c1, w2))))"

definition check_resource_type ::
  "BlackbirdApiClient \<Rightarrow> world \<Rightarrow> json \<Rightarrow> ResourceType \<Rightarrow> json result" where
  "check_resource_type c w resource_id resource_type =
     on_exception 3 (check_once resource_id resource_type) c w"

subsection \<open>Submit and wait\<close>

text \<open>
  The mapping patterns of the \<^verbatim>\<open>match check\<close> statement. A pattern matches a dict that has
  every key of the pattern (other keys are allowed) and the literal under \<^verbatim>\<open>"status"\<close>;
  it yields the values it captures.
\<close>

definition has_status :: "dict \<Rightarrow> string \<Rightarrow> bool" where
  "has_status d s = (map_of d ''status'' = Some (JStr s))"

definition context_shape :: "dict \<Rightarrow> (json \<times> json) option" where
  "context_shape d =
     (if has_status d ''success'' then
        (case map_of d ''context'' of
           None \<Rightarrow> None
         | Some data \<Rightarrow>
             (case map_of d ''input'' of None \<Rightarrow> None | Some inp \<Rightarrow> Some (data, inp)))
      else None)"

definition analysis_shape :: "dict \<Rightarrow> (json \<times> json \<times> json) option" where
  "analysis_shape d =
     (if has_status d ''success'' then
        (case map_of d ''options'' of
           None \<Rightarrow> None
         | Some options \<Rightarrow>
             (case map_of d ''input'' of
                None \<Rightarrow> None
              | Some inp \<Rightarrow>
                  (case map_of d ''analysis'' of
                     None \<Rightarrow> None
                   | Some analysis \<Rightarrow> Some (options, inp, analysis))))
      else None)"

definition failed_shape :: "dict \<Rightarrow> json option" where
  "failed_shape d = (if has_status d ''failed'' then map_of d ''error'' else None)"

text \<open>
  What one pass of the \<^verbatim>\<open>match\<close> statement does with the decoded status \<open>check\<close>, the
  variable \<open>error\<close> holding the last failure: return a result, raise (\<^verbatim>\<open>{**data, ...}\<close> on
  a value that is not a dict is a TypeError), or sleep and go round again with the new
  value of \<open>error\<close>.
\<close>

datatype outcome = Return dict | Raise error | Again json

definition match_check :: "json \<Rightarrow> json \<Rightarrow> outcome" where
  "match_check check error =
     (case check of
        JObj d \<Rightarrow>
          (case context_shape d of
             Some (data, inp) \<Rightarrow>
               (case data of
                  JObj kvs \<Rightarrow> Return (dict_set kvs ''input'' inp)
                | _ \<Rightarrow> Raise TypeError)
           | None \<Rightarrow>
               (case analysis_shape d of
                  Some (options, inp, analysis) \<Rightarrow>
                    (case analysis of
                       JObj kvs \<Rightarrow>
                         Return (dict_set (dict_set kvs ''options'' options) ''input'' inp)
                     | _ \<Rightarrow> Raise TypeError)
                | None \<Rightarrow>
                    (if has_status d ''processing'' then Again error
                     else
                       (case failed_shape d of
                          Some err \<Rightarrow> Again err
                        | None \<Rightarrow> Again error))))
      | _ \<Rightarrow> Again error)"

text \<open>
  The \<^verbatim>\<open>while retries <= max_retries and time.time() < cutoff\<close> loop and the
  \<^verbatim>\<open>raise\<close> after it. The clock is read only when the first conjunct holds.
\<close>

function wait_loop ::
  "BlackbirdApiClient \<Rightarrow> world \<Rightarrow> json \<Rightarrow> ResourceType \<Rightarrow> int \<Rightarrow> int \<Rightarrow> int \<Rightarrow> real
    \<Rightarrow> int \<Rightarrow> json \<Rightarrow> dict result" where
  "wait_loop c w resource_id resource_type max_retries max_time check_interval cutoff
       retries error =
     (if retries \<le> max_retries then
        (case time_time w of
           (now, w1) \<Rightarrow>
             (if now < cutoff then
                (case check_resource_type c w1 resource_id resource_type of
                   (Inl e, c2, w2) \<Rightarrow> (Inl e, c2, w2)
                 | (Inr check, c2, w2) \<Rightarrow>
                     (case match_check check error of
                        Return r \<Rightarrow> (Inr r, c2, w2)
                      | Raise e \<Rightarrow> (Inl e, c2, w2)
                      | Again err \<Rightarrow>
                          wait_loop c2 (sleep w2 check_interval) resource_id resource_type
                            max_retries max_time check_interval cutoff (retries + 1) err))
              else (Inl (RuntimeError (Retried retries max_time error)), c, w1)))
      else (Inl (RuntimeError (Retried retries max_time error)), c, w))"
  by pat_completeness auto
termination
  by (relation "measure (\<lambda>(c, w, rid, rt, max_retries, mt, ci, cutoff, retries, err).
        nat (max_retries + 1 - retries))") auto

declare wait_loop.simps [simp del]

definition submit_and_wait_resource ::
  "BlackbirdApiClient \<Rightarrow> world \<Rightarrow> string \<Rightarrow> ResourceType \<Rightarrow> dict \<Rightarrow> int \<Rightarrow> int \<Rightarrow> int
    \<Rightarrow> dict result" where
  "submit_and_wait_resource c w resource resource_type opts max_retries max_time
       check_interval =
     (case submit_resource_type c w resource resource_type opts of
        (Inl e, c1, w1) \<Rightarrow> (Inl e, c1, w1)
      | (Inr resource_id, c1, w1) \<Rightarrow>
          (case time_time w1 of
             (now, w2) \<Rightarrow>
               (case as_float max_time of
                  Inl e \<Rightarrow> (Inl e, c1, w2)
                | Inr budget \<Rightarrow>
                    wait_loop c1 w2 resource_id resource_type max_retries max_time
                      check_interval (now + budget) 0 (JStr ''''))))"

section \<open>Vocabulary of the statements\<close>

text \<open>
  \<open>fresh c w n\<close>: at the \<open>n\<close>-th clock read of \<open>w\<close>, \<^verbatim>\<open>bearer_token\<close> does not take its refresh
  branch for the token that \<open>c\<close> holds. It speaks of one clock read only: a statement names
  each read at which it needs the token fresh. \<open>submit_request\<close> and \<open>check_request\<close> are the
  requests one attempt of a submission and of a status check sends with that token.
\<close>

definition fresh :: "BlackbirdApiClient \<Rightarrow> world \<Rightarrow> nat \<Rightarrow> bool" where
  "fresh c w n = (clock w n - 0.5 \<le> expiration_time (BlackbirdApiClient.token c))"

definition bearer :: "BlackbirdApiClient \<Rightarrow> world \<Rightarrow> string" where
  "bearer c w = ''Bearer '' @ format w (Token.token (BlackbirdApiClient.token c))"

definition auth_headers :: "BlackbirdApiClient \<Rightarrow> world \<Rightarrow> (string \<times> string) list" where
  "auth_headers c w = [(''Authorization'', bearer c w), (''Content-Type'', ''application/json'')]"

definition submit_request ::
  "BlackbirdApiClient \<Rightarrow> world \<Rightarrow> string \<Rightarrow> ResourceType \<Rightarrow> dict \<Rightarrow> request" where
  "submit_request c w resource resource_type opts =
     POST (submit_url resource_type) (auth_headers c w)
       (JsonBody (JObj (submit_data resource opts)))"

definition check_request ::
  "BlackbirdApiClient \<Rightarrow> world \<Rightarrow> json \<Rightarrow> ResourceType \<Rightarrow> request" where
  "check_request c w resource_id resource_type =
     GET (status_url w resource_type resource_id) (auth_headers c w)"

text \<open>\<open>n\<close> calls of \<^verbatim>\<open>bearer_token\<close> in a row, with the value each one gave.\<close>

fun bearer_tokens ::
  "nat \<Rightarrow> BlackbirdApiClient \<Rightarrow> world \<Rightarrow> (error + string) list \<times> BlackbirdApiClient \<times> world" where
  "bearer_tokens 0 c w = ([], c, w)"
| "bearer_tokens (Suc n) c w =
     (case bearer_token c w of
        (r, c1, w1) \<Rightarrow>
          (case bearer_tokens n c1 w1 of (rs, c2, w2) \<Rightarrow> (r # rs, c2, w2)))"

subsection \<open>Test doubles\<close>

text \<open>
  \<open>test_world now srv\<close> is a world whose clock stands still at \<open>now\<close> and whose server is
  \<open>srv\<close>; \<open>ticking_world srv\<close> is one whose clock advances by a millisecond at every read.
  \<open>test_client expiry\<close> holds the token \<^verbatim>\<open>t0\<close> that expires at \<open>expiry\<close>. \<open>stub check\<close> accepts
  every submission with the id \<^verbatim>\<open>r1\<close> and answers every status check with \<open>check\<close>;
  \<open>script_stub checks final\<close> does the same but answers the \<open>k\<close>-th status check with the
  \<open>k\<close>-th payload of \<open>checks\<close> and every later one with \<open>final\<close>; \<open>answers rs final\<close> gives
  the \<open>k\<close>-th request the \<open>k\<close>-th response of \<open>rs\<close> and every later one \<open>final\<close>; \<open>token_stub\<close>
  issues the token \<^verbatim>\<open>t1\<close>, valid for an hour. \<open>test_post\<close> and \<open>test_get\<close> are the requests
  the test client sends for a Context resource.
\<close>

definition test_world ::
  "real \<Rightarrow> (event list \<Rightarrow> request \<Rightarrow> string + http_response) \<Rightarrow> world" where
  "test_world now srv =
     \<lparr>clock = (\<lambda>n. now), server = srv, py_str = (\<lambda>x. ''''), ticks = 0, trace = []\<rparr>"

definition ticking_world :: "(event list \<Rightarrow> request \<Rightarrow> string + http_response) \<Rightarrow> world" where
  "ticking_world srv =
     \<lparr>clock = (\<lambda>n. real n / 1000), server = srv, py_str = (\<lambda>x. ''''), ticks = 0,
      trace = []\<rparr>"

definition test_client :: "real \<Rightarrow> BlackbirdApiClient" where
  "test_client expiry =
     \<lparr>auth_url = cognito_url,
      auth_payload = [(''client_id'', JStr ''id''), (''client_secret'', JStr ''secret''),
                      (''grant_type'', JStr ''client_credentials'')],
      BlackbirdApiClient.token = \<lparr>Token.token = JStr ''t0'', expiration_time = expiry\<rparr>\<rparr>"

definition stub :: "json \<Rightarrow> event list \<Rightarrow> request \<Rightarrow> string + http_response" where
  "stub check tr req =
     (case req of
        POST u h b \<Rightarrow> Inr \<lparr>status_code = 200, body = Some (JObj [(''id'', JStr ''r1'')])\<rparr>
      | GET u h \<Rightarrow> Inr \<lparr>status_code = 200, body = Some check\<rparr>)"

fun is_request :: "event \<Rightarrow> bool" where
  "is_request (Request req) = True"
| "is_request e = False"

fun is_check :: "event \<Rightarrow> bool" where
  "is_check (Request (GET u h)) = True"
| "is_check e = False"

definition answers ::
  "http_response list \<Rightarrow> http_response \<Rightarrow> event list \<Rightarrow> request \<Rightarrow> string + http_response" where
  "answers rs final tr req =
     (if length (filter is_request tr) < length rs then Inr (rs ! length (filter is_request tr))
      else Inr final)"

definition script_stub ::
  "json list \<Rightarrow> json \<Rightarrow> event list \<Rightarrow> request \<Rightarrow> string + http_response" where
  "script_stub checks final tr req =
     (case req of
        POST u h b \<Rightarrow> Inr \<lparr>status_code = 200, body = Some (JObj [(''id'', JStr ''r1'')])\<rparr>
      | GET u h \<Rightarrow>
          Inr \<lparr>status_code = 200,
               body = Some (if length (filter is_check tr) < length checks
                            then checks ! length (filter is_check tr) else final)\<rparr>)"

definition token_stub :: "event list \<Rightarrow> request \<Rightarrow> string + http_response" where
  "token_stub tr req =
     Inr \<lparr>status_code = 200,
          body = Some (JObj [(''access_token'', JStr ''t1''), (''expires_in'', JInt 3600)])\<rparr>"

definition test_post :: "string \<Rightarrow> request" where
  "test_post resource =
     POST ''https://api.blackbird.ai/compass/contextChecks''
       [(''Authorization'', ''Bearer t0''), (''Content-Type'', ''application/json'')]
       (JsonBody (JObj [(''input'', JStr resource)]))"

definition test_get :: request where
  "test_get =
     GET ''https://api.blackbird.ai/compass/contextChecks/r1''
       [(''Authorization'', ''Bearer t0''), (''Content-Type'', ''application/json'')]"

text \<open>
  A world whose first clock read gives 0 and every later one 100.2, with a server that
  issues the token \<^verbatim>\<open>t1\<close>, valid for 100 seconds; and the client that the password grant
  builds around a token.
\<close>

definition aging_world :: world where
  "aging_world =
     \<lparr>clock = (\<lambda>n. if n = 0 then 0 else 100.2),
      server = (\<lambda>tr req.
        Inr \<lparr>status_code = 200,
             body = Some (JObj [(''access_token'', JStr ''t1''), (''expires_in'', JInt 100)])\<rparr>),
      py_str = (\<lambda>x. ''''), ticks = 0, trace = []\<rparr>"

definition password_client :: "Token \<Rightarrow> BlackbirdApiClient" where
  "password_client t =
     \<lparr>auth_url = ''https://api.blackbird.ai/compass/token'',
      auth_payload = [(''username'', JStr ''alice''), (''password'', JStr ''pw''),
                      (''grant_type'', JStr ''password'')],
      BlackbirdApiClient.token = t\<rparr>"

text \<open>
  The two success payloads of the specification, a failure, a status the loop does not
  know, and a \<^verbatim>\<open>success\<close> payload whose \<^verbatim>\<open>context\<close> is \<^verbatim>\<open>null\<close>.
\<close>

definition context_example :: json where
  "context_example =
     JObj [(''status'', JStr ''success''),
           (''context'', JObj [(''verdict'', JStr ''false''), (''score'', JFloat 0.9)]),
           (''input'', JStr ''claim text'')]"

definition analysis_example :: json where
  "analysis_example =
     JObj [(''status'', JStr ''success''),
           (''options'', JObj [(''explain'', JBool True)]),
           (''input'', JStr ''http://img''),
           (''analysis'', JObj [(''fake'', JBool True)])]"

definition failed_example :: json where
  "failed_example = JObj [(''status'', JStr ''failed''), (''error'', JStr ''boom'')]"

definition queued_example :: json where
  "queued_example = JObj [(''status'', JStr ''queued'')]"

definition null_context_example :: json where
  "null_context_example =
     JObj [(''status'', JStr ''success''), (''context'', JNull), (''input'', JStr ''text'')]"

section \<open>Basic facts\<close>

text \<open>Clock reads and events do not change what a request looks like.\<close>

lemma world_update_order [simp]:
  "w\<lparr>trace := t, ticks := n\<rparr> = w\<lparr>ticks := n, trace := t\<rparr>"
  by (cases w) simp

lemma format_ticks [simp]: "format (w\<lparr>ticks := n\<rparr>) = format w"
  by (rule ext) (simp add: format_def split: json.splits)

lemma format_trace [simp]: "format (w\<lparr>trace := t\<rparr>) = format w"
  by (rule ext) (simp add: format_def split: json.splits)

lemma format_JStr [simp]: "format w (JStr s) = s"
  by (simp add: format_def)

lemma fresh_ticks [simp]: "fresh c (w\<lparr>ticks := n\<rparr>) = fresh c w"
  by (rule ext) (simp add: fresh_def)

lemma fresh_trace [simp]: "fresh c (w\<lparr>trace := t\<rparr>) = fresh c w"
  by (rule ext) (simp add: fresh_def)

text \<open>One attempt with a fresh token: one clock read, one request.\<close>

lemma bearer_token_fresh:
  "fresh c w (ticks w) \<Longrightarrow>
   bearer_token c w = (Inr (bearer c w), c, w\<lparr>ticks := Suc (ticks w)\<rparr>)"
  by (simp add: bearer_token_def time_time_def bearer_def fresh_def not_less)

lemma headers_fresh:
  "fresh c w (ticks w) \<Longrightarrow>
   headers c w = (Inr (auth_headers c w), c, w\<lparr>ticks := Suc (ticks w)\<rparr>)"
  by (simp add: headers_def bearer_token_fresh auth_headers_def)

lemma bearer_upd [simp]:
  "bearer c (w\<lparr>ticks := n\<rparr>) = bearer c w"
  "bearer c (w\<lparr>trace := t\<rparr>) = bearer c w"
  by (simp_all add: bearer_def)

lemma auth_headers_upd [simp]:
  "auth_headers c (w\<lparr>ticks := n\<rparr>) = auth_headers c w"
  "auth_headers c (w\<lparr>trace := t\<rparr>) = auth_headers c w"
  by (simp_all add: auth_headers_def)

lemma status_url_upd [simp]:
  "status_url (w\<lparr>ticks := n\<rparr>) = status_url w"
  "status_url (w\<lparr>trace := t\<rparr>) = status_url w"
  by (rule ext, rule ext, simp add: status_url_def)+

lemma submit_request_upd [simp]:
  "submit_request c (w\<lparr>ticks := n\<rparr>) = submit_request c w"
  "submit_request c (w\<lparr>trace := t\<rparr>) = submit_request c w"
  by (rule ext, rule ext, rule ext, simp add: submit_request_def)+

lemma check_request_upd [simp]:
  "check_request c (w\<lparr>ticks := n\<rparr>) = check_request c w"
  "check_request c (w\<lparr>trace := t\<rparr>) = check_request c w"
  by (rule ext, rule ext, simp add: check_request_def)+

lemma submit_once_fresh:
  assumes "fresh c w (ticks w)"
    and "server w (trace w) (submit_request c w resource rt opts) = Inr r"
  shows "submit_once resource rt opts c w =
     ((if status_code r = 200 \<or> status_code r = 202 then
         (case body r of None \<Rightarrow> Inl JSONDecodeError | Some data \<Rightarrow> getitem data ''id'')
       else if status_code r = 500 then Inl (RetryableError (FailedToSubmit r))
       else Inl (RuntimeError (FailedToSubmit r))),
      c,
      w\<lparr>ticks := Suc (ticks w),
        trace := trace w @ [Request (submit_request c w resource rt opts)]\<rparr>)"
  using assms
  by (simp add: submit_once_def headers_fresh send_def submit_request_def split: option.splits)

lemma check_once_fresh:
  assumes "fresh c w (ticks w)"
    and "server w (trace w) (check_request c w rid rt) = Inr r"
  shows "check_once rid rt c w =
     ((if status_code r = 200 \<or> status_code r = 202 then
         (case body r of None \<Rightarrow> Inl JSONDecodeError | Some data \<Rightarrow> Inr data)
       else if status_code r = 500 then Inl (RetryableError (FailedToCheck rt rid))
       else if 500 > status_code r \<and> status_code r \<ge> 400 then
         Inl (RuntimeError (WasNotFound rt rid r))
       else Inl (RuntimeError (FailedToSubmit r))),
      c,
      w\<lparr>ticks := Suc (ticks w), trace := trace w @ [Request (check_request c w rid rt)]\<rparr>)"
  using assms
  by (simp add: check_once_def headers_fresh send_def check_request_def split: option.splits)

lemma as_float_small: "\<bar>n\<bar> < 2 ^ 63 \<Longrightarrow> as_float n = Inr (real_of_int n)"
proof -
  assume "\<bar>n\<bar> < 2 ^ 63"
  moreover have "(2::int) ^ 63 \<le> 2 ^ 1024 - 2 ^ 970"
    by simp
  ultimately show ?thesis
    by (simp add: as_float_def)
qed

lemma as_float_error: "as_float n = Inl e \<Longrightarrow> e = OverflowError"
  by (simp add: as_float_def split: if_splits)

section \<open>The retry decorator unfolded\<close>

lemma on_exception_3:
  "on_exception 3 target c w =
     (case target c w of
        (Inr x, c1, w1) \<Rightarrow> (Inr x, c1, w1)
      | (Inl e, c1, w1) \<Rightarrow>
          (if is_retryable e then
             (case target c1 (backoff_sleep w1 1) of
                (Inr x, c2, w2) \<Rightarrow> (Inr x, c2, w2)
              | (Inl e2, c2, w2) \<Rightarrow>
                  (if is_retryable e2 then target c2 (backoff_sleep w2 2) else (Inl e2, c2, w2)))
           else (Inl e, c1, w1)))"
  by (simp add: on_exception_def numeral_eq_Suc split: prod.splits sum.splits)

lemma submit_resource_type_unfold:
  "submit_resource_type c w resource rt opts =
     (case submit_once resource rt opts c w of
        (Inr x, c1, w1) \<Rightarrow> (Inr x, c1, w1)
      | (Inl e, c1, w1) \<Rightarrow>
          (if is_retryable e then
             (case submit_once resource rt opts c1 (backoff_sleep w1 1) of
                (Inr x, c2, w2) \<Rightarrow> (Inr x, c2, w2)
              | (Inl e2, c2, w2) \<Rightarrow>
                  (if is_retryable e2 then submit_once resource rt opts c2 (backoff_sleep w2 2)
                   else (Inl e2, c2, w2)))
           else (Inl e, c1, w1)))"
  by (simp add: submit_resource_type_def on_exception_3)

lemma check_resource_type_unfold:
  "check_resource_type c w rid rt =
     (case check_once rid rt c w of
        (Inr x, c1, w1) \<Rightarrow> (Inr x, c1, w1)
      | (Inl e, c1, w1) \<Rightarrow>
          (if is_retryable e then
             (case check_once rid rt c1 (backoff_sleep w1 1) of
                (Inr x, c2, w2) \<Rightarrow> (Inr x, c2, w2)
              | (Inl e2, c2, w2) \<Rightarrow>
                  (if is_retryable e2 then check_once rid rt c2 (backoff_sleep w2 2)
                   else (Inl e2, c2, w2)))
           else (Inl e, c1, w1)))"
  by (simp add: check_resource_type_def on_exception_3)

lemma check_resource_type_ok:
  assumes "fresh c w (ticks w)"
    and "server w (trace w) (check_request c w rid rt) = Inr r"
    and "status_code r = 200 \<or> status_code r = 202"
    and "body r = Some data"
  shows "check_resource_type c w rid rt =
     (Inr data, c,
      w\<lparr>ticks := Suc (ticks w), trace := trace w @ [Request (check_request c w rid rt)]\<rparr>)"
  using assms by (auto simp: check_resource_type_unfold check_once_fresh)

section \<open>One attempt of a submission\<close>

text \<open>
  Only the 500 branch of an attempt raises \<^verbatim>\<open>RetryableError\<close>; and what the decorated call
  does for each sequence of answers, with the token fresh at the clock read of each
  attempt.
\<close>

lemma getitem_id [simp]: "getitem (JObj [(''id'', rid)]) ''id'' = Inr rid"
  by (simp add: getitem_def)

lemma new_token_error: "new_token url data w = (Inl e, w') \<Longrightarrow> \<not> is_retryable e"
  by (auto simp: new_token_def send_def time_time_def add_seconds_def
      split: sum.splits option.splits json.splits prod.splits if_splits
      dest: as_float_error)

lemma headers_error: "headers c w = (Inl e, c', w') \<Longrightarrow> \<not> is_retryable e"
  by (auto simp: headers_def bearer_token_def time_time_def
      split: sum.splits prod.splits if_splits dest: new_token_error)

lemma getitem_error: "getitem data k = Inl e \<Longrightarrow> \<not> is_retryable e"
  by (auto simp: getitem_def split: json.splits option.splits)

lemma submit_once_retryable:
  assumes "submit_once resource rt opts c w = (Inl e, c', w')" and "is_retryable e"
  shows "\<exists>r. e = RetryableError (FailedToSubmit r) \<and> status_code r = 500"
proof (cases "headers c w")
  case (fields r c1 w1)
  show ?thesis
  proof (cases r)
    case (Inl e1)
    with fields assms headers_error[of c w e1 c1 w1] show ?thesis
      by (simp add: submit_once_def)
  next
    case (Inr hs)
    with fields assms show ?thesis
      by (auto simp: submit_once_def send_def
          split: sum.splits option.splits if_splits dest: getitem_error)
  qed
qed

lemma submit_once_retryable_500:
  assumes "submit_once resource rt opts c w = (Inl (RetryableError m), c', w')"
  shows "\<exists>r. m = FailedToSubmit r \<and> status_code r = 500"
  using submit_once_retryable[OF assms] by simp

lemma is_retryable_iff: "is_retryable e = (\<exists>m. e = RetryableError m)"
  by (cases e) simp_all

lemma submit_first_500:
  assumes "fresh c w (ticks w)"
    and "server w (trace w) (submit_request c w resource rt opts) = Inr r1"
    and "status_code r1 = 500"
  shows "submit_resource_type c w resource rt opts =
     (case submit_once resource rt opts c
             (w\<lparr>ticks := Suc (ticks w),
                trace := trace w @ [Request (submit_request c w resource rt opts),
                                    BackoffSleep 1]\<rparr>) of
        (Inr x, c2, w2) \<Rightarrow> (Inr x, c2, w2)
      | (Inl e2, c2, w2) \<Rightarrow>
          (if is_retryable e2 then submit_once resource rt opts c2 (backoff_sleep w2 2)
           else (Inl e2, c2, w2)))"
  using assms
  by (simp add: submit_resource_type_unfold submit_once_fresh backoff_sleep_def)

lemma submit_second_500:
  assumes "fresh c w (ticks w)"
    and "server w (trace w) (submit_request c w resource rt opts) = Inr r1"
    and "status_code r1 = 500"
    and "fresh c w (Suc (ticks w))"
    and "server w (trace w @ [Request (submit_request c w resource rt opts), BackoffSleep 1])
           (submit_request c w resource rt opts) = Inr r2"
    and "status_code r2 = 500"
  shows "submit_resource_type c w resource rt opts =
     submit_once resource rt opts c
       (w\<lparr>ticks := Suc (Suc (ticks w)),
          trace := trace w @ [Request (submit_request c w resource rt opts), BackoffSleep 1,
                              Request (submit_request c w resource rt opts),
                              BackoffSleep 2]\<rparr>)"
  using assms
  by (simp add: submit_first_500 submit_once_fresh backoff_sleep_def)

lemma submit_other_1:
  assumes "fresh c w (ticks w)"
    and "server w (trace w) (submit_request c w resource rt opts) = Inr r1"
    and "status_code r1 \<noteq> 200" and "status_code r1 \<noteq> 202" and "status_code r1 \<noteq> 500"
  shows "submit_resource_type c w resource rt opts =
     (Inl (RuntimeError (FailedToSubmit r1)), c,
      w\<lparr>ticks := ticks w + 1,
        trace := trace w @ [Request (submit_request c w resource rt opts)]\<rparr>)"
  using assms
  by (simp add: submit_resource_type_unfold submit_once_fresh)

lemma submit_other_2:
  assumes "fresh c w (ticks w)"
    and "server w (trace w) (submit_request c w resource rt opts) = Inr r1"
    and "status_code r1 = 500"
    and "fresh c w (Suc (ticks w))"
    and "server w (trace w @ [Request (submit_request c w resource rt opts), BackoffSleep 1])
           (submit_request c w resource rt opts) = Inr r2"
    and "status_code r2 \<noteq> 200" and "status_code r2 \<noteq> 202" and "status_code r2 \<noteq> 500"
  shows "submit_resource_type c w resource rt opts =
     (Inl (RuntimeError (FailedToSubmit r2)), c,
      w\<lparr>ticks := ticks w + 2,
        trace := trace w @ [Request (submit_request c w resource rt opts), BackoffSleep 1,
                            Request (submit_request c w resource rt opts)]\<rparr>)"
  using assms
  by (simp add: submit_first_500 submit_once_fresh)

lemma submit_third:
  assumes "fresh c w (ticks w)"
    and "server w (trace w) (submit_request c w resource rt opts) = Inr r1"
    and "status_code r1 = 500"
    and "fresh c w (Suc (ticks w))"
    and "server w (trace w @ [Request (submit_request c w resource rt opts), BackoffSleep 1])
           (submit_request c w resource rt opts) = Inr r2"
    and "status_code r2 = 500"
    and "fresh c w (Suc (Suc (ticks w)))"
    and "server w (trace w @ [Request (submit_request c w resource rt opts), BackoffSleep 1,
                              Request (submit_request c w resource rt opts), BackoffSleep 2])
           (submit_request c w resource rt opts) = Inr r3"
  shows "submit_resource_type c w resource rt opts =
     ((if status_code r3 = 200 \<or> status_code r3 = 202 then
         (case body r3 of None \<Rightarrow> Inl JSONDecodeError | Some data \<Rightarrow> getitem data ''id'')
       else if status_code r3 = 500 then Inl (RetryableError (FailedToSubmit r3))
       else Inl (RuntimeError (FailedToSubmit r3))),
      c,
      w\<lparr>ticks := ticks w + 3,
        trace := trace w @ [Request (submit_request c w resource rt opts), BackoffSleep 1,
                            Request (submit_request c w resource rt opts), BackoffSleep 2,
                            Request (submit_request c w resource rt opts)]\<rparr>)"
  using assms
  by (simp add: submit_second_500 submit_once_fresh)

lemma submit_accepted_1:
  assumes "fresh c w (ticks w)"
    and "server w (trace w) (submit_request c w resource rt opts) = Inr r"
    and "status_code r = 200 \<or> status_code r = 202"
    and "body r = Some (JObj d)" and "map_of d ''id'' = Some rid"
  shows "submit_resource_type c w resource rt opts =
     (Inr rid, c,
      w\<lparr>ticks := ticks w + 1,
        trace := trace w @ [Request (submit_request c w resource rt opts)]\<rparr>)"
  using assms by (auto simp: submit_resource_type_unfold submit_once_fresh getitem_def)

section \<open>One pass of the loop\<close>

lemma map_of_dict_set: "map_of (dict_set d k v) = (map_of d)(k \<mapsto> v)"
  by (induction d) (auto simp: fun_eq_iff)

lemma match_check_context:
  assumes "map_of d ''status'' = Some (JStr ''success'')"
    and "map_of d ''context'' = Some (JObj C)" and "map_of d ''input'' = Some I"
  shows "match_check (JObj d) error = Return (dict_set C ''input'' I)"
  using assms by (simp add: match_check_def context_shape_def has_status_def)

lemma match_check_analysis:
  assumes "map_of d ''status'' = Some (JStr ''success'')"
    and "map_of d ''context'' = None"
    and "map_of d ''options'' = Some Opts" and "map_of d ''input'' = Some I"
    and "map_of d ''analysis'' = Some (JObj A)"
  shows "match_check (JObj d) error = Return (dict_set (dict_set A ''options'' Opts) ''input'' I)"
  using assms by (simp add: match_check_def context_shape_def analysis_shape_def has_status_def)


lemma match_check_failed:
  assumes "map_of d ''status'' = Some (JStr ''failed'')" and "map_of d ''error'' = Some err"
  shows "match_check (JObj d) error = Again err"
  using assms
  by (simp add: match_check_def context_shape_def analysis_shape_def failed_shape_def
      has_status_def)

lemma match_check_unrecognized_success:
  assumes "map_of d ''status'' = Some (JStr ''success'')"
    and "map_of d ''context'' = None \<or> map_of d ''input'' = None"
    and "map_of d ''options'' = None \<or> map_of d ''input'' = None \<or> map_of d ''analysis'' = None"
  shows "match_check (JObj d) error = Again error"
  using assms
  by (auto simp: match_check_def context_shape_def analysis_shape_def failed_shape_def
      has_status_def split: option.splits)

lemma match_check_other:
  assumes "\<forall>d. check = JObj d \<longrightarrow>
      (map_of d ''status'' \<noteq> Some (JStr ''success'') \<or> map_of d ''input'' = None \<or>
       (map_of d ''context'' = None \<and>
        (map_of d ''options'' = None \<or> map_of d ''analysis'' = None))) \<and>
      (map_of d ''status'' \<noteq> Some (JStr ''failed'') \<or> map_of d ''error'' = None)"
  shows "match_check check error = Again error"
proof (cases check)
  case (JObj d)
  with assms show ?thesis
    by (auto simp: match_check_def context_shape_def analysis_shape_def failed_shape_def
        has_status_def split: option.splits)
qed (simp_all add: match_check_def)

lemma wait_loop_again:
  assumes "retries \<le> max_retries" and "clock w (ticks w) < cutoff"
    and "check_resource_type c (w\<lparr>ticks := Suc (ticks w)\<rparr>) rid rt = (Inr check, c', w')"
    and "match_check check error = Again err"
  shows "wait_loop c w rid rt max_retries max_time check_interval cutoff retries error =
         wait_loop c' (w'\<lparr>trace := trace w' @ [Sleep check_interval]\<rparr>) rid rt max_retries max_time
           check_interval cutoff (retries + 1) err"
  using assms by (subst wait_loop.simps) (simp add: time_time_def sleep_def)


lemma wait_loop_return:
  assumes "retries \<le> max_retries" and "clock w (ticks w) < cutoff"
    and "check_resource_type c (w\<lparr>ticks := Suc (ticks w)\<rparr>) rid rt = (Inr check, c', w')"
    and "match_check check error = Return r"
  shows "wait_loop c w rid rt max_retries max_time check_interval cutoff retries error =
         (Inr r, c', w')"
  using assms by (subst wait_loop.simps) (simp add: time_time_def)

lemma wait_loop_raise:
  assumes "retries \<le> max_retries" and "clock w (ticks w) < cutoff"
    and "check_resource_type c (w\<lparr>ticks := Suc (ticks w)\<rparr>) rid rt = (Inr check, c', w')"
    and "match_check check error = Raise e"
  shows "wait_loop c w rid rt max_retries max_time check_interval cutoff retries error =
         (Inl e, c', w')"
  using assms by (subst wait_loop.simps) (simp add: time_time_def)

lemma wait_loop_stop:
  "\<not> retries \<le> max_retries \<Longrightarrow>
   wait_loop c w rid rt max_retries max_time check_interval cutoff retries error =
     (Inl (RuntimeError (Retried retries max_time error)), c, w)"
  by (subst wait_loop.simps) simp

lemma wait_loop_late:
  "retries \<le> max_retries \<Longrightarrow> \<not> clock w (ticks w) < cutoff \<Longrightarrow>
   wait_loop c w rid rt max_retries max_time check_interval cutoff retries error =
     (Inl (RuntimeError (Retried retries max_time error)), c, w\<lparr>ticks := Suc (ticks w)\<rparr>)"
  by (subst wait_loop.simps) (simp add: time_time_def)


lemma submit_and_wait_unfold:
  assumes "submit_resource_type c w resource rt opts = (Inr rid, c1, w1)"
    and "\<bar>max_time\<bar> < 2 ^ 1024 - 2 ^ 970"
  shows "submit_and_wait_resource c w resource rt opts max_retries max_time check_interval =
     wait_loop c1 (w1\<lparr>ticks := Suc (ticks w1)\<rparr>) rid rt max_retries max_time check_interval
       (clock w1 (ticks w1) + real_of_int max_time) 0 (JStr '''')"
  using assms by (simp add: submit_and_wait_resource_def time_time_def as_float_def)

section \<open>The test doubles at work\<close>

lemma test_world_sel [simp]:
  "clock (test_world now srv) n = now" "server (test_world now srv) = srv"
  "ticks (test_world now srv) = 0" "trace (test_world now srv) = []"
  by (simp_all add: test_world_def)

lemma ticking_world_sel [simp]:
  "clock (ticking_world srv) n = real n / 1000" "server (ticking_world srv) = srv"
  "ticks (ticking_world srv) = 0" "trace (ticking_world srv) = []"
  by (simp_all add: ticking_world_def)

lemma test_client_expiry [simp]:
  "expiration_time (BlackbirdApiClient.token (test_client expiry)) = expiry"
  by (simp add: test_client_def)

lemma fresh_test: "now - 0.5 \<le> expiry \<Longrightarrow> fresh (test_client expiry) (test_world now srv) n"
  by (simp add: fresh_def test_client_def)

lemma fresh_ticking:
  "real n / 1000 - 0.5 \<le> expiry \<Longrightarrow> fresh (test_client expiry) (ticking_world srv) n"
  by (simp add: fresh_def test_client_def)

lemma is_check_test [simp]:
  "is_check (Request (test_post resource)) = False" "is_check (Request test_get) = True"
  by (simp_all add: test_post_def test_get_def)

lemma submit_request_test:
  "submit_request (test_client expiry) w resource CONTEXT [] = test_post resource"
  by (simp add: submit_request_def test_post_def submit_url_def BASE_URL_def auth_headers_def
      bearer_def test_client_def submit_data_def)

lemma check_request_test:
  "check_request (test_client expiry) w (JStr ''r1'') CONTEXT = test_get"
  by (simp add: check_request_def test_get_def status_url_def BASE_URL_def auth_headers_def
      bearer_def test_client_def)

lemma submit_stub:
  assumes "fresh c w (ticks w)" and "server w = stub check"
  shows "submit_resource_type c w resource rt opts =
     (Inr (JStr ''r1''), c,
      w\<lparr>ticks := ticks w + 1,
        trace := trace w @ [Request (submit_request c w resource rt opts)]\<rparr>)"
  using assms
  by (intro submit_accepted_1[where
        r = "\<lparr>status_code = 200, body = Some (JObj [(''id'', JStr ''r1'')])\<rparr>"
        and d = "[(''id'', JStr ''r1'')]"])
     (simp_all add: stub_def submit_request_def)

lemma check_stub:
  assumes "fresh c w (ticks w)" and "server w = stub check"
  shows "check_resource_type c w rid rt =
     (Inr check, c,
      w\<lparr>ticks := Suc (ticks w), trace := trace w @ [Request (check_request c w rid rt)]\<rparr>)"
  using assms
  by (intro check_resource_type_ok[where r = "\<lparr>status_code = 200, body = Some check\<rparr>"])
     (simp_all add: stub_def check_request_def)

lemma check_stub_next:
  assumes "fresh c w (Suc (ticks w))" and "server w = stub check"
  shows "check_resource_type c (w\<lparr>ticks := Suc (ticks w)\<rparr>) rid rt =
     (Inr check, c,
      w\<lparr>ticks := Suc (Suc (ticks w)), trace := trace w @ [Request (check_request c w rid rt)]\<rparr>)"
  using check_stub[of c "w\<lparr>ticks := Suc (ticks w)\<rparr>" check rid rt] assms by simp

lemma check_test_world:
  assumes "now - 0.5 \<le> expiry"
  shows "check_resource_type (test_client expiry)
       ((test_world now (stub p))\<lparr>ticks := n, trace := t\<rparr>) rid rt =
     (Inr p, test_client expiry,
      (test_world now (stub p))
        \<lparr>ticks := Suc n,
         trace := t @ [Request (check_request (test_client expiry) (test_world now (stub p))
                                  rid rt)]\<rparr>)"
  using check_stub[of "test_client expiry" "(test_world now (stub p))\<lparr>ticks := n, trace := t\<rparr>"
      p rid rt] fresh_test[OF assms]
  by simp

lemma check_script:
  assumes "fresh c w n" and "server w = script_stub checks final"
  shows "check_resource_type c (w\<lparr>ticks := n, trace := t\<rparr>) rid rt =
     (Inr (if length (filter is_check t) < length checks
           then checks ! length (filter is_check t) else final),
      c, w\<lparr>ticks := Suc n, trace := t @ [Request (check_request c w rid rt)]\<rparr>)"
  using assms
    check_resource_type_ok[where c = c and w = "w\<lparr>ticks := n, trace := t\<rparr>" and rid = rid
      and rt = rt
      and r = "\<lparr>status_code = 200,
                 body = Some (if length (filter is_check t) < length checks
                              then checks ! length (filter is_check t) else final)\<rparr>"
      and data = "if length (filter is_check t) < length checks
                  then checks ! length (filter is_check t) else final"]
  by (simp add: script_stub_def check_request_def)

lemma submit_script:
  assumes "fresh c w (ticks w)" and "server w = script_stub checks final"
  shows "submit_resource_type c w resource rt opts =
     (Inr (JStr ''r1''), c,
      w\<lparr>ticks := ticks w + 1,
        trace := trace w @ [Request (submit_request c w resource rt opts)]\<rparr>)"
  using assms
  by (intro submit_accepted_1[where
        r = "\<lparr>status_code = 200, body = Some (JObj [(''id'', JStr ''r1'')])\<rparr>"
        and d = "[(''id'', JStr ''r1'')]"])
     (simp_all add: script_stub_def submit_request_def)

lemma submit_and_wait_stub:
  assumes "now - 0.5 \<le> expiry" and "\<bar>max_time\<bar> < 2 ^ 63"
  shows "submit_and_wait_resource (test_client expiry) (test_world now (stub check)) resource rt opts
       max_retries max_time check_interval =
     wait_loop (test_client expiry)
       ((test_world now (stub check))
          \<lparr>ticks := 2,
           trace := [Request (submit_request (test_client expiry) (test_world now (stub check))
                                 resource rt opts)]\<rparr>)
       (JStr ''r1'') rt max_retries max_time check_interval (now + real_of_int max_time) 0
       (JStr '''')"
proof -
  have "submit_resource_type (test_client expiry) (test_world now (stub check)) resource rt opts =
     (Inr (JStr ''r1''), test_client expiry,
      (test_world now (stub check))\<lparr>ticks := Suc 0,
         trace := [Request (submit_request (test_client expiry) (test_world now (stub check))
                                 resource rt opts)]\<rparr>)"
    using submit_stub[where c = "test_client expiry" and w = "test_world now (stub check)"
        and check = check and resource = resource and rt = rt and opts = opts]
      fresh_test[OF assms(1)]
    by simp
  then show ?thesis
    using assms(2)
    by (simp add: submit_and_wait_resource_def time_time_def numeral_2_eq_2 as_float_small)
qed

lemma submit_and_wait_script:
  assumes "\<bar>max_time\<bar> < 2 ^ 63"
  shows "submit_and_wait_resource (test_client 3600) (ticking_world (script_stub checks final))
       resource rt opts max_retries max_time check_interval =
     wait_loop (test_client 3600)
       ((ticking_world (script_stub checks final))
          \<lparr>ticks := 2,
           trace := [Request (submit_request (test_client 3600)
                                 (ticking_world (script_stub checks final)) resource rt opts)]\<rparr>)
       (JStr ''r1'') rt max_retries max_time check_interval (1 / 1000 + real_of_int max_time) 0
       (JStr '''')"
proof -
  let ?c = "test_client 3600"
  let ?w = "ticking_world (script_stub checks final)"
  have bound: "\<bar>max_time\<bar> < 2 ^ 1024 - 2 ^ 970"
    using assms by simp
  have sub: "submit_resource_type ?c ?w resource rt opts =
     (Inr (JStr ''r1''), ?c,
      ?w\<lparr>ticks := 1, trace := [Request (submit_request ?c ?w resource rt opts)]\<rparr>)"
    using submit_script[where c = ?c and w = ?w and checks = checks and final = final
        and resource = resource and rt = rt and opts = opts]
    by (simp add: fresh_ticking)
  from submit_and_wait_unfold[OF sub bound] show ?thesis
    by (simp add: numeral_2_eq_2)
qed

section \<open>Endpoints\<close>

text \<open>
  Claim C2 names the path segments \<^verbatim>\<open>context-checks\<close> and \<^verbatim>\<open>vision-analyses\<close>. The code
  has neither.
\<close>

theorem resource_paths_differ:
  "\<not> (resource_type_value CONTEXT = ''context-checks'' \<and>
      resource_type_value VISION = ''vision-analyses'')"
  by simp

text \<open>
  Claim C2, amended to the strings of the code. The path segment of the Context kind is
  \<^verbatim>\<open>compass/contextChecks\<close> and that of the Vision kind is \<^verbatim>\<open>compass/visionAnalyses\<close>; a
  submission goes to the base URL followed by the segment, a status check to that URL
  followed by the resource id.
\<close>

theorem resource_paths:
  "resource_type_value CONTEXT = ''compass/contextChecks'' \<and>
   resource_type_value VISION = ''compass/visionAnalyses'' \<and>
   submit_url CONTEXT = ''https://api.blackbird.ai/compass/contextChecks'' \<and>
   submit_url VISION = ''https://api.blackbird.ai/compass/visionAnalyses'' \<and>
   status_url w CONTEXT (JStr rid) = ''https://api.blackbird.ai/compass/contextChecks/'' @ rid \<and>
   status_url w VISION (JStr rid) = ''https://api.blackbird.ai/compass/visionAnalyses/'' @ rid"
  by (simp add: submit_url_def status_url_def BASE_URL_def)

section \<open>Construction\<close>

text \<open>
  Claim C7. When the username or the password is missing or empty, and the client id or
  the client secret is missing or empty, \<^verbatim>\<open>__init__\<close> raises the \<^verbatim>\<open>ValueError\<close> and leaves
  the world as it was: no request is sent.
\<close>

theorem no_credentials_is_fatal:
  assumes "username = None \<or> username = Some [] \<or> password = None \<or> password = Some []"
    and "client_id = None \<or> client_id = Some [] \<or> client_secret = None \<or> client_secret = Some []"
  shows "init client_id client_secret username password w =
           (Inl (ValueError (Text credentials_message)), w)"
  using assms by (auto simp: init_def both_def split: option.splits)

text \<open>Four empty strings, as an empty environment gives; and one half of each pair.\<close>

theorem no_credentials_is_fatal_witness:
  "init (Some []) (Some []) (Some []) (Some []) (test_world 0 token_stub) =
     (Inl (ValueError (Text credentials_message)), test_world 0 token_stub)
   \<and> init (Some ''id'') None None (Some ''pw'') (test_world 0 token_stub) =
     (Inl (ValueError (Text credentials_message)), test_world 0 token_stub)"
  using no_credentials_is_fatal[of "Some []" "Some []" "Some []" "Some []" "test_world 0 token_stub"]
    no_credentials_is_fatal[of None "Some ''pw''" "Some ''id''" None "test_world 0 token_stub"]
  by simp

text \<open>Fetching a token sends exactly one request, whatever the answer.\<close>

lemma new_token_trace:
  "trace (snd (new_token url data w)) = trace w @ [Request (POST url [] (FormData data))]"
  by (simp add: new_token_def send_def time_time_def
      split: sum.splits option.splits json.splits prod.splits)

lemma connect_trace:
  "trace (snd (connect url data w)) = trace w @ [Request (POST url [] (FormData data))]"
  using new_token_trace[of url data w]
  by (cases "new_token url data w") (auto simp: connect_def split: sum.splits)

lemma connect_client:
  "connect url data w = (Inr c, w') \<Longrightarrow> auth_url c = url \<and> auth_payload c = data"
  by (auto simp: connect_def split: sum.splits prod.splits)

text \<open>
  Claim C9. With a non-empty username and password, whatever the client id and secret,
  \<^verbatim>\<open>__init__\<close> does what it does without them: it sends one token request, to the
  \<^verbatim>\<open>/compass/token\<close> endpoint of the service with the password grant, and a client it
  returns holds that endpoint and that request body.
\<close>

theorem password_grant_takes_precedence:
  assumes "u \<noteq> []" and "p \<noteq> []"
  shows "init client_id client_secret (Some u) (Some p) w = init None None (Some u) (Some p) w
    \<and> trace (snd (init client_id client_secret (Some u) (Some p) w)) =
        trace w @ [Request (POST ''https://api.blackbird.ai/compass/token'' []
          (FormData [(''username'', JStr u), (''password'', JStr p),
                     (''grant_type'', JStr ''password'')]))]
    \<and> (\<forall>c w'. init client_id client_secret (Some u) (Some p) w = (Inr c, w') \<longrightarrow>
          auth_url c = ''https://api.blackbird.ai/compass/token'' \<and>
          auth_payload c = [(''username'', JStr u), (''password'', JStr p),
                            (''grant_type'', JStr ''password'')])"
  using assms
  by (auto simp: init_def both_def connect_trace BASE_URL_def dest: connect_client)

text \<open>Both pairs given: the token request is the password grant.\<close>

theorem password_grant_takes_precedence_witness:
  "init (Some ''id'') (Some ''secret'') (Some ''alice'') (Some ''pw'') (test_world 0 token_stub) =
     init None None (Some ''alice'') (Some ''pw'') (test_world 0 token_stub)
   \<and> trace (snd (init (Some ''id'') (Some ''secret'') (Some ''alice'') (Some ''pw'')
                    (test_world 0 token_stub))) =
       [Request (POST ''https://api.blackbird.ai/compass/token'' []
          (FormData [(''username'', JStr ''alice''), (''password'', JStr ''pw''),
                     (''grant_type'', JStr ''password'')]))]
   \<and> fst (init (Some ''id'') (Some ''secret'') (Some ''alice'') (Some ''pw'')
            (test_world 0 token_stub)) =
       Inr \<lparr>auth_url = ''https://api.blackbird.ai/compass/token'',
            auth_payload = [(''username'', JStr ''alice''), (''password'', JStr ''pw''),
                            (''grant_type'', JStr ''password'')],
            BlackbirdApiClient.token = \<lparr>Token.token = JStr ''t1'', expiration_time = 3600\<rparr>\<rparr>"
proof -
  have r: "init None None (Some ''alice'') (Some ''pw'') (test_world 0 token_stub) =
     (Inr \<lparr>auth_url = ''https://api.blackbird.ai/compass/token'',
            auth_payload = [(''username'', JStr ''alice''), (''password'', JStr ''pw''),
                            (''grant_type'', JStr ''password'')],
            BlackbirdApiClient.token = \<lparr>Token.token = JStr ''t1'', expiration_time = 3600\<rparr>\<rparr>,
      (test_world 0 token_stub)
        \<lparr>ticks := 1,
         trace := [Request (POST ''https://api.blackbird.ai/compass/token'' []
          (FormData [(''username'', JStr ''alice''), (''password'', JStr ''pw''),
                     (''grant_type'', JStr ''password'')]))]\<rparr>)"
    by (simp add: init_def both_def connect_def new_token_def send_def token_stub_def
        time_time_def add_seconds_def as_float_small BASE_URL_def)
  show ?thesis
    using password_grant_takes_precedence[of "''alice''" "''pw''" "Some ''id''" "Some ''secret''"
        "test_world 0 token_stub"]
    by (simp add: r)
qed

section \<open>The bearer token\<close>

text \<open>
  Claim C1 asks that a token whose expiry is less than 0.5 seconds away is refreshed
  before it is returned. The test \<^verbatim>\<open>time.time() - 0.5 > self.token.expiration_time\<close> holds
  only once the token has been expired for more than 0.5 seconds: at time 100.2 the token
  that expired at 100 is returned as it is, and no request is sent. The same happens to a
  client built at time 0 with a token that is valid for 100 seconds and asked for its
  bearer token at time 100.2: the only request ever sent is the one of the construction.
\<close>

theorem stale_token_returned:
  "bearer_token (test_client 100) (test_world 100.2 (stub JNull)) =
     (Inr ''Bearer t0'', test_client 100, (test_world 100.2 (stub JNull))\<lparr>ticks := 1\<rparr>)
   \<and> trace (snd (snd (bearer_token (test_client 100) (test_world 100.2 (stub JNull))))) = []
   \<and> expiration_time (BlackbirdApiClient.token (test_client 100))
       < clock (test_world 100.2 (stub JNull)) 0
   \<and> init None None (Some ''alice'') (Some ''pw'') aging_world =
     (Inr (password_client \<lparr>Token.token = JStr ''t1'', expiration_time = 100\<rparr>),
      aging_world
        \<lparr>ticks := 1,
         trace := [Request (POST ''https://api.blackbird.ai/compass/token'' []
           (FormData [(''username'', JStr ''alice''), (''password'', JStr ''pw''),
                      (''grant_type'', JStr ''password'')]))]\<rparr>)
   \<and> bearer_token (password_client \<lparr>Token.token = JStr ''t1'', expiration_time = 100\<rparr>)
       (snd (init None None (Some ''alice'') (Some ''pw'') aging_world)) =
     (Inr ''Bearer t1'', password_client \<lparr>Token.token = JStr ''t1'', expiration_time = 100\<rparr>,
      aging_world
        \<lparr>ticks := 2,
         trace := [Request (POST ''https://api.blackbird.ai/compass/token'' []
           (FormData [(''username'', JStr ''alice''), (''password'', JStr ''pw''),
                      (''grant_type'', JStr ''password'')]))]\<rparr>)"
proof -
  have now: "bearer_token (test_client 100) (test_world 100.2 (stub JNull)) =
     (Inr ''Bearer t0'', test_client 100, (test_world 100.2 (stub JNull))\<lparr>ticks := 1\<rparr>)"
    by (simp add: bearer_token_def time_time_def test_client_def test_world_def)
  have made: "init None None (Some ''alice'') (Some ''pw'') aging_world =
     (Inr (password_client \<lparr>Token.token = JStr ''t1'', expiration_time = 100\<rparr>),
      aging_world
        \<lparr>ticks := 1,
         trace := [Request (POST ''https://api.blackbird.ai/compass/token'' []
           (FormData [(''username'', JStr ''alice''), (''password'', JStr ''pw''),
                      (''grant_type'', JStr ''password'')]))]\<rparr>)"
    by (simp add: init_def both_def connect_def new_token_def send_def time_time_def
        add_seconds_def as_float_small BASE_URL_def aging_world_def password_client_def)
  have later: "bearer_token (password_client \<lparr>Token.token = JStr ''t1'', expiration_time = 100\<rparr>)
       (aging_world
        \<lparr>ticks := 1,
         trace := [Request (POST ''https://api.blackbird.ai/compass/token'' []
           (FormData [(''username'', JStr ''alice''), (''password'', JStr ''pw''),
                      (''grant_type'', JStr ''password'')]))]\<rparr>) =
     (Inr ''Bearer t1'', password_client \<lparr>Token.token = JStr ''t1'', expiration_time = 100\<rparr>,
      aging_world
        \<lparr>ticks := 2,
         trace := [Request (POST ''https://api.blackbird.ai/compass/token'' []
           (FormData [(''username'', JStr ''alice''), (''password'', JStr ''pw''),
                      (''grant_type'', JStr ''password'')]))]\<rparr>)"
    by (simp add: bearer_token_def time_time_def aging_world_def password_client_def)
  have quiet: "trace (snd (snd (bearer_token (test_client 100) (test_world 100.2 (stub JNull))))) = []"
    using now by (simp add: test_world_def)
  have stale: "expiration_time (BlackbirdApiClient.token (test_client 100))
       < clock (test_world 100.2 (stub JNull)) 0"
    by (simp add: test_client_def test_world_def)
  show ?thesis
    by (intro conjI now quiet stale made) (simp only: made snd_conv later)
qed

text \<open>
  Claim C8. While the expiry of the cached token minus 0.5 seconds is later than each of
  the next \<open>n\<close> clock reads, \<open>n\<close> calls of \<^verbatim>\<open>bearer_token\<close> all return the same string, the
  client keeps its token, and the world changes by the \<open>n\<close> clock reads only: no request
  is sent.
\<close>

theorem bearer_token_idempotent:
  assumes "\<forall>i<n. clock w (ticks w + i) < expiration_time (BlackbirdApiClient.token c) - 0.5"
  shows "bearer_tokens n c w =
     (replicate n (Inr (''Bearer '' @ format w (Token.token (BlackbirdApiClient.token c)))), c,
      w\<lparr>ticks := ticks w + n\<rparr>)"
  using assms
proof (induction n arbitrary: w)
  case 0
  then show ?case by simp
next
  case (Suc n)
  have now: "fresh c w (ticks w)"
    using Suc.prems by (auto simp: fresh_def dest: spec[where x = 0])
  have later: "\<forall>i<n. clock (w\<lparr>ticks := Suc (ticks w)\<rparr>) (ticks (w\<lparr>ticks := Suc (ticks w)\<rparr>) + i)
      < expiration_time (BlackbirdApiClient.token c) - 0.5"
    using Suc.prems by (auto dest: spec[where x = "Suc i" for i])
  show ?case
    by (simp add: bearer_token_fresh[OF now] Suc.IH[OF later] bearer_def)
qed

text \<open>Three calls at time 0 with a token that expires at 3600.\<close>

theorem bearer_token_idempotent_witness:
  "clock (test_world 0 (stub JNull)) 0
       < expiration_time (BlackbirdApiClient.token (test_client 3600)) - 0.5
   \<and> clock (test_world 0 (stub JNull)) 1
       < expiration_time (BlackbirdApiClient.token (test_client 3600)) - 0.5
   \<and> clock (test_world 0 (stub JNull)) 2
       < expiration_time (BlackbirdApiClient.token (test_client 3600)) - 0.5
   \<and> bearer_tokens 3 (test_client 3600) (test_world 0 (stub JNull)) =
     ([Inr ''Bearer t0'', Inr ''Bearer t0'', Inr ''Bearer t0''], test_client 3600,
      (test_world 0 (stub JNull))\<lparr>ticks := 3\<rparr>)
   \<and> trace (snd (snd (bearer_tokens 3 (test_client 3600) (test_world 0 (stub JNull))))) = []"
proof -
  have h: "\<forall>i<3. clock (test_world 0 (stub JNull)) (ticks (test_world 0 (stub JNull)) + i)
       < expiration_time (BlackbirdApiClient.token (test_client 3600)) - 0.5"
    by (simp add: test_world_def test_client_def)
  show ?thesis
    using bearer_token_idempotent[OF h]
    by (simp add: test_world_def test_client_def numeral_eq_Suc)
qed

section \<open>Submission\<close>

text \<open>
  Claim C5. \<^verbatim>\<open>_submit_resource_type\<close> repeats an attempt only after \<^verbatim>\<open>RetryableError\<close>, which
  one attempt raises only for an HTTP 500 answer, with a backoff wait between attempts and
  at most three attempts in all; every other outcome of an attempt is the outcome of the
  call. Attempt by attempt, whatever the token and the clock: a result of the first attempt
  is returned; a failure of the first attempt that is not a \<^verbatim>\<open>RetryableError\<close> is raised with
  the effects of that attempt only; after a \<^verbatim>\<open>RetryableError\<close> of the first attempt and a
  backoff wait, a result of the second attempt is returned and a failure of it that is not
  a \<^verbatim>\<open>RetryableError\<close> is raised, with the effects of these two attempts only; after a
  \<^verbatim>\<open>RetryableError\<close> of the second attempt and a second, longer backoff wait, the call is
  the third attempt, whatever it gives; and a \<^verbatim>\<open>RetryableError\<close> of an attempt comes from an
  answer 500. Answer by answer, with the token fresh at the one clock read of each attempt
  that is made: an answer 200 or 202 with an id gives that id after exactly one request; an
  answer that is none of 200, 202, 500 (a 404, say) gives a \<^verbatim>\<open>RuntimeError\<close> after exactly
  one request; 500 and then such an answer give the \<^verbatim>\<open>RuntimeError\<close> after exactly two
  requests; 500, 500 and then 200 or 202 with an id give that id after exactly three
  requests; three answers 500 give the \<^verbatim>\<open>RetryableError\<close> of the third after exactly three
  requests; 500, 500 and then an answer that is none of 200, 202, 500 give the
  \<^verbatim>\<open>RuntimeError\<close> after exactly three requests.
\<close>

theorem submit_retry_policy:
  fixes c w resource rt opts
  defines "P \<equiv> submit_request c w resource rt opts"
    and "attempt \<equiv> submit_once resource rt opts"
    and "submit \<equiv> submit_resource_type c w resource rt opts"
    and "F \<equiv> \<lambda>i. clock w (ticks w + i) - 0.5 \<le> expiration_time (BlackbirdApiClient.token c)"
    and "other \<equiv> \<lambda>r. status_code r \<noteq> 200 \<and> status_code r \<noteq> 202 \<and> status_code r \<noteq> 500"
    and "accepted \<equiv> \<lambda>r rid. (status_code r = 200 \<or> status_code r = 202) \<and>
           (\<exists>d. body r = Some (JObj d) \<and> map_of d ''id'' = Some rid)"
  shows
   "(attempt c w = (Inr x, c1, w1) \<longrightarrow> submit = (Inr x, c1, w1))
    \<and> (attempt c w = (Inl e, c1, w1) \<and> (\<forall>m. e \<noteq> RetryableError m) \<longrightarrow>
          submit = (Inl e, c1, w1))
    \<and> (attempt c w = (Inl (RetryableError m1), c1, w1) \<and>
        attempt c1 (w1\<lparr>trace := trace w1 @ [BackoffSleep 1]\<rparr>) = (Inr x, c2, w2) \<longrightarrow>
          submit = (Inr x, c2, w2))
    \<and> (attempt c w = (Inl (RetryableError m1), c1, w1) \<and>
        attempt c1 (w1\<lparr>trace := trace w1 @ [BackoffSleep 1]\<rparr>) = (Inl e, c2, w2) \<and>
        (\<forall>m. e \<noteq> RetryableError m) \<longrightarrow>
          submit = (Inl e, c2, w2))
    \<and> (attempt c w = (Inl (RetryableError m1), c1, w1) \<and>
        attempt c1 (w1\<lparr>trace := trace w1 @ [BackoffSleep 1]\<rparr>) =
          (Inl (RetryableError m2), c2, w2) \<longrightarrow>
          submit = attempt c2 (w2\<lparr>trace := trace w2 @ [BackoffSleep 2]\<rparr>))
    \<and> (attempt c w = (Inl (RetryableError m1), c1, w1) \<longrightarrow>
          (\<exists>r. m1 = FailedToSubmit r \<and> status_code r = 500))
    \<and> (F 0 \<and> server w (trace w) P = Inr r1 \<and> accepted r1 rid \<longrightarrow>
          submit = (Inr rid, c, w\<lparr>ticks := ticks w + 1, trace := trace w @ [Request P]\<rparr>))
    \<and> (F 0 \<and> server w (trace w) P = Inr r1 \<and> other r1 \<longrightarrow>
          submit = (Inl (RuntimeError (FailedToSubmit r1)), c,
                    w\<lparr>ticks := ticks w + 1, trace := trace w @ [Request P]\<rparr>))
    \<and> (F 0 \<and> server w (trace w) P = Inr r1 \<and> status_code r1 = 500 \<and>
        F 1 \<and> server w (trace w @ [Request P, BackoffSleep 1]) P = Inr r2 \<and> other r2 \<longrightarrow>
          submit = (Inl (RuntimeError (FailedToSubmit r2)), c,
                    w\<lparr>ticks := ticks w + 2,
                      trace := trace w @ [Request P, BackoffSleep 1, Request P]\<rparr>))
    \<and> (F 0 \<and> server w (trace w) P = Inr r1 \<and> status_code r1 = 500 \<and>
        F 1 \<and> server w (trace w @ [Request P, BackoffSleep 1]) P = Inr r2 \<and>
        status_code r2 = 500 \<and>
        F 2 \<and> server w (trace w @ [Request P, BackoffSleep 1, Request P, BackoffSleep 2]) P
                = Inr r3 \<and> accepted r3 rid \<longrightarrow>
          submit = (Inr rid, c,
                    w\<lparr>ticks := ticks w + 3,
                      trace := trace w @ [Request P, BackoffSleep 1, Request P, BackoffSleep 2,
                                          Request P]\<rparr>))
    \<and> (F 0 \<and> server w (trace w) P = Inr r1 \<and> status_code r1 = 500 \<and>
        F 1 \<and> server w (trace w @ [Request P, BackoffSleep 1]) P = Inr r2 \<and>
        status_code r2 = 500 \<and>
        F 2 \<and> server w (trace w @ [Request P, BackoffSleep 1, Request P, BackoffSleep 2]) P
                = Inr r3 \<and> status_code r3 = 500 \<longrightarrow>
          submit = (Inl (RetryableError (FailedToSubmit r3)), c,
                    w\<lparr>ticks := ticks w + 3,
                      trace := trace w @ [Request P, BackoffSleep 1, Request P, BackoffSleep 2,
                                          Request P]\<rparr>))
    \<and> (F 0 \<and> server w (trace w) P = Inr r1 \<and> status_code r1 = 500 \<and>
        F 1 \<and> server w (trace w @ [Request P, BackoffSleep 1]) P = Inr r2 \<and>
        status_code r2 = 500 \<and>
        F 2 \<and> server w (trace w @ [Request P, BackoffSleep 1, Request P, BackoffSleep 2]) P
                = Inr r3 \<and> other r3 \<longrightarrow>
          submit = (Inl (RuntimeError (FailedToSubmit r3)), c,
                    w\<lparr>ticks := ticks w + 3,
                      trace := trace w @ [Request P, BackoffSleep 1, Request P, BackoffSleep 2,
                                          Request P]\<rparr>))"
  unfolding P_def attempt_def submit_def F_def other_def accepted_def
  apply (intro conjI impI)
  subgoal by (simp add: submit_resource_type_unfold)
  subgoal by (simp add: submit_resource_type_unfold is_retryable_iff)
  subgoal by (simp add: submit_resource_type_unfold backoff_sleep_def)
  subgoal by (simp add: submit_resource_type_unfold backoff_sleep_def is_retryable_iff)
  subgoal by (simp add: submit_resource_type_unfold backoff_sleep_def)
  subgoal by (rule submit_once_retryable_500)
  subgoal by (elim conjE exE, rule submit_accepted_1) (simp_all add: fresh_def)
  subgoal by (elim conjE, rule submit_other_1) (simp_all add: fresh_def)
  subgoal by (elim conjE, rule submit_other_2) (simp_all add: fresh_def)
  subgoal
    by (elim conjE exE, subst submit_third[where ?r1.0 = r1 and ?r2.0 = r2 and ?r3.0 = r3])
       (simp_all add: fresh_def getitem_def)
  subgoal
    by (elim conjE, subst submit_third[where ?r1.0 = r1 and ?r2.0 = r2 and ?r3.0 = r3])
       (simp_all add: fresh_def)
  subgoal
    by (elim conjE, subst submit_third[where ?r1.0 = r1 and ?r2.0 = r2 and ?r3.0 = r3])
       (simp_all add: fresh_def)
  done

text \<open>
  On a running clock: 500, 500, 200 gives the id after three requests; a single 404 fails
  after one request; 500 and then 404 fails after two requests.
\<close>

theorem submit_retry_policy_witness:
  "submit_resource_type (test_client 3600)
       (ticking_world (answers [\<lparr>status_code = 500, body = None\<rparr>,
                                \<lparr>status_code = 500, body = None\<rparr>]
                        \<lparr>status_code = 200, body = Some (JObj [(''id'', JStr ''r1'')])\<rparr>))
       ''text'' CONTEXT [] =
     (Inr (JStr ''r1''), test_client 3600,
      (ticking_world (answers [\<lparr>status_code = 500, body = None\<rparr>,
                               \<lparr>status_code = 500, body = None\<rparr>]
                        \<lparr>status_code = 200, body = Some (JObj [(''id'', JStr ''r1'')])\<rparr>))
        \<lparr>ticks := 3,
         trace := [Request (test_post ''text''), BackoffSleep 1, Request (test_post ''text''),
                   BackoffSleep 2, Request (test_post ''text'')]\<rparr>)
   \<and> submit_resource_type (test_client 3600)
       (ticking_world (answers [] \<lparr>status_code = 404, body = None\<rparr>)) ''text'' CONTEXT [] =
     (Inl (RuntimeError (FailedToSubmit \<lparr>status_code = 404, body = None\<rparr>)), test_client 3600,
      (ticking_world (answers [] \<lparr>status_code = 404, body = None\<rparr>))
        \<lparr>ticks := 1, trace := [Request (test_post ''text'')]\<rparr>)
   \<and> submit_resource_type (test_client 3600)
       (ticking_world (answers [\<lparr>status_code = 500, body = None\<rparr>]
                        \<lparr>status_code = 404, body = None\<rparr>)) ''text'' CONTEXT [] =
     (Inl (RuntimeError (FailedToSubmit \<lparr>status_code = 404, body = None\<rparr>)), test_client 3600,
      (ticking_world (answers [\<lparr>status_code = 500, body = None\<rparr>]
                        \<lparr>status_code = 404, body = None\<rparr>))
        \<lparr>ticks := 2,
         trace := [Request (test_post ''text''), BackoffSleep 1, Request (test_post ''text'')]\<rparr>)"
proof -
  let ?c = "test_client 3600"
  let ?r500 = "\<lparr>status_code = 500, body = None\<rparr>"
  let ?r404 = "\<lparr>status_code = 404, body = None\<rparr>"
  let ?ok = "\<lparr>status_code = 200, body = Some (JObj [(''id'', JStr ''r1'')])\<rparr>"
  have third: "submit_resource_type ?c (ticking_world (answers [?r500, ?r500] ?ok))
       ''text'' CONTEXT [] =
     (Inr (JStr ''r1''), ?c,
      (ticking_world (answers [?r500, ?r500] ?ok))
        \<lparr>ticks := 3,
         trace := [Request (test_post ''text''), BackoffSleep 1, Request (test_post ''text''),
                   BackoffSleep 2, Request (test_post ''text'')]\<rparr>)"
    using submit_retry_policy[where c = ?c and resource = "''text''" and rt = CONTEXT
        and opts = "[]" and w = "ticking_world (answers [?r500, ?r500] ?ok)" and ?r1.0 = ?r500
        and ?r2.0 = ?r500 and ?r3.0 = ?ok and rid = "JStr ''r1''",
        THEN conjunct2, THEN conjunct2, THEN conjunct2, THEN conjunct2, THEN conjunct2,
        THEN conjunct2, THEN conjunct2, THEN conjunct2, THEN conjunct2, THEN conjunct1]
    by (simp add: submit_request_test answers_def)
  have first: "submit_resource_type ?c (ticking_world (answers [] ?r404)) ''text'' CONTEXT [] =
     (Inl (RuntimeError (FailedToSubmit ?r404)), ?c,
      (ticking_world (answers [] ?r404))
        \<lparr>ticks := 1, trace := [Request (test_post ''text'')]\<rparr>)"
    using submit_retry_policy[where c = ?c and resource = "''text''" and rt = CONTEXT
        and opts = "[]" and w = "ticking_world (answers [] ?r404)" and ?r1.0 = ?r404,
        THEN conjunct2, THEN conjunct2, THEN conjunct2, THEN conjunct2, THEN conjunct2,
        THEN conjunct2, THEN conjunct2, THEN conjunct1]
    by (simp add: submit_request_test answers_def)
  have second: "submit_resource_type ?c (ticking_world (answers [?r500] ?r404))
       ''text'' CONTEXT [] =
     (Inl (RuntimeError (FailedToSubmit ?r404)), ?c,
      (ticking_world (answers [?r500] ?r404))
        \<lparr>ticks := 2,
         trace := [Request (test_post ''text''), BackoffSleep 1, Request (test_post ''text'')]\<rparr>)"
    using submit_retry_policy[where c = ?c and resource = "''text''" and rt = CONTEXT
        and opts = "[]" and w = "ticking_world (answers [?r500] ?r404)" and ?r1.0 = ?r500
        and ?r2.0 = ?r404,
        THEN conjunct2, THEN conjunct2, THEN conjunct2, THEN conjunct2, THEN conjunct2,
        THEN conjunct2, THEN conjunct2, THEN conjunct2, THEN conjunct1]
    by (simp add: submit_request_test answers_def)
  show ?thesis
    by (intro conjI third first second)
qed

section \<open>The bound of the polling loop\<close>



section \<open>Normalization\<close>

text \<open>
  Claim C4. When the loop is entered and the status check yields a dict tagged
  \<^verbatim>\<open>"success"\<close>: if it has a dict \<open>C\<close> under \<^verbatim>\<open>"context"\<close> and a value \<open>I\<close> under \<^verbatim>\<open>"input"\<close>,
  the loop returns \<^verbatim>\<open>{**C, "input": I}\<close>, the fields of \<open>C\<close> merged with the input; if it has
  no \<^verbatim>\<open>"context"\<close> but \<open>Opts\<close> under \<^verbatim>\<open>"options"\<close>, \<open>I\<close> under \<^verbatim>\<open>"input"\<close> and a dict \<open>A\<close> under
  \<^verbatim>\<open>"analysis"\<close>, the loop returns \<^verbatim>\<open>{**A, "options": Opts, "input": I}\<close>, the fields of \<open>A\<close>
  merged with the options and the input.
\<close>

theorem normalization_exact:
  assumes "retries \<le> max_retries" and "clock w (ticks w) < cutoff"
    and "check_resource_type c (w\<lparr>ticks := Suc (ticks w)\<rparr>) rid rt = (Inr (JObj d), c', w')"
    and "map_of d ''status'' = Some (JStr ''success'')"
  shows
    "(\<forall>C I. map_of d ''context'' = Some (JObj C) \<and> map_of d ''input'' = Some I \<longrightarrow>
        wait_loop c w rid rt max_retries max_time check_interval cutoff retries error =
          (Inr (dict_set C ''input'' I), c', w') \<and>
        map_of (dict_set C ''input'' I) = map_of C ++ [''input'' \<mapsto> I])
     \<and> (\<forall>Opts I A. map_of d ''context'' = None \<and> map_of d ''options'' = Some Opts \<and>
          map_of d ''input'' = Some I \<and> map_of d ''analysis'' = Some (JObj A) \<longrightarrow>
        wait_loop c w rid rt max_retries max_time check_interval cutoff retries error =
          (Inr (dict_set (dict_set A ''options'' Opts) ''input'' I), c', w') \<and>
        map_of (dict_set (dict_set A ''options'' Opts) ''input'' I) =
          map_of A ++ [''options'' \<mapsto> Opts, ''input'' \<mapsto> I])"
proof (intro conjI allI impI)
  fix C I
  assume h: "map_of d ''context'' = Some (JObj C) \<and> map_of d ''input'' = Some I"
  from wait_loop_return[OF assms(1,2,3) match_check_context[OF assms(4)]] h
  show "wait_loop c w rid rt max_retries max_time check_interval cutoff retries error =
          (Inr (dict_set C ''input'' I), c', w')"
    by simp
  show "map_of (dict_set C ''input'' I) = map_of C ++ [''input'' \<mapsto> I]"
    by (simp add: map_of_dict_set)
next
  fix Opts I A
  assume h: "map_of d ''context'' = None \<and> map_of d ''options'' = Some Opts \<and>
          map_of d ''input'' = Some I \<and> map_of d ''analysis'' = Some (JObj A)"
  from wait_loop_return[OF assms(1,2,3) match_check_analysis[OF assms(4)]] h
  show "wait_loop c w rid rt max_retries max_time check_interval cutoff retries error =
          (Inr (dict_set (dict_set A ''options'' Opts) ''input'' I), c', w')"
    by simp
  show "map_of (dict_set (dict_set A ''options'' Opts) ''input'' I) =
          map_of A ++ [''options'' \<mapsto> Opts, ''input'' \<mapsto> I]"
    by (simp add: map_of_dict_set)
qed

text \<open>The two examples of the specification, from submission to result.\<close>

theorem normalization_exact_witness:
  "submit_and_wait_resource (test_client 3600) (test_world 0 (stub context_example))
       ''claim text'' CONTEXT [] 60 600 10 =
     (Inr [(''verdict'', JStr ''false''), (''score'', JFloat 0.9), (''input'', JStr ''claim text'')],
      test_client 3600,
      (test_world 0 (stub context_example))
        \<lparr>ticks := 4, trace := [Request (test_post ''claim text''), Request test_get]\<rparr>)
   \<and> fst (submit_and_wait_resource (test_client 3600) (test_world 0 (stub analysis_example))
       ''http://img'' VISION [(''explain'', JBool True)] 60 600 10) =
     Inr [(''fake'', JBool True), (''options'', JObj [(''explain'', JBool True)]),
          (''input'', JStr ''http://img'')]"
proof -
  let ?c = "test_client 3600"
  let ?w = "test_world 0 (stub context_example)"
  let ?v = "test_world 0 (stub analysis_example)"
  let ?w1 = "?w\<lparr>ticks := 2, trace := [Request (test_post ''claim text'')]\<rparr>"
  let ?P = "Request (submit_request ?c ?v ''http://img'' VISION [(''explain'', JBool True)])"
  let ?v1 = "?v\<lparr>ticks := 2, trace := [?P]\<rparr>"
  have one: "wait_loop ?c ?w1 (JStr ''r1'') CONTEXT 60 600 10 600 0 (JStr '''') =
     (Inr [(''verdict'', JStr ''false''), (''score'', JFloat 0.9), (''input'', JStr ''claim text'')],
      ?c, ?w\<lparr>ticks := 4, trace := [Request (test_post ''claim text''), Request test_get]\<rparr>)"
    using normalization_exact[where c = ?c and w = ?w1 and c' = ?c
        and d = "[(''status'', JStr ''success''),
                  (''context'', JObj [(''verdict'', JStr ''false''), (''score'', JFloat 0.9)]),
                  (''input'', JStr ''claim text'')]"
        and w' = "?w\<lparr>ticks := 4, trace := [Request (test_post ''claim text''), Request test_get]\<rparr>"
        and retries = 0 and max_retries = 60 and cutoff = 600 and rid = "JStr ''r1''"
        and rt = CONTEXT and max_time = 600 and check_interval = 10 and error = "JStr ''''"]
      check_test_world[where now = 0 and expiry = 3600 and p = context_example and n = 3
        and t = "[Request (test_post ''claim text'')]" and rid = "JStr ''r1''" and rt = CONTEXT]
    by (simp add: check_request_test context_example_def)
  have two: "fst (wait_loop ?c ?v1 (JStr ''r1'') VISION 60 600 10 600 0 (JStr '''')) =
     Inr [(''fake'', JBool True), (''options'', JObj [(''explain'', JBool True)]),
          (''input'', JStr ''http://img'')]"
    using normalization_exact[where c = ?c and w = ?v1 and c' = ?c
        and d = "[(''status'', JStr ''success''), (''options'', JObj [(''explain'', JBool True)]),
                  (''input'', JStr ''http://img''), (''analysis'', JObj [(''fake'', JBool True)])]"
        and w' = "?v\<lparr>ticks := 4,
                     trace := [?P, Request (check_request ?c ?v (JStr ''r1'') VISION)]\<rparr>"
        and retries = 0 and max_retries = 60 and cutoff = 600 and rid = "JStr ''r1''"
        and rt = VISION and max_time = 600 and check_interval = 10 and error = "JStr ''''"]
      check_test_world[where now = 0 and expiry = 3600 and p = analysis_example and n = 3
        and t = "[?P]" and rid = "JStr ''r1''" and rt = VISION]
    by (simp add: analysis_example_def)
  show ?thesis
    using one two by (simp add: submit_and_wait_stub submit_request_test)
qed

section \<open>Statuses that keep the loop going\<close>

text \<open>
  Claim C6. When the loop is entered and the status check yields a dict tagged
  \<^verbatim>\<open>"failed"\<close> with \<open>err\<close> under \<^verbatim>\<open>"error"\<close>, the loop sleeps \<open>check_interval\<close> and goes on
  with one more retry counted and \<open>err\<close> as the last error. The last error then stays what
  it is through every later pass that records none: when the status check yields a value
  that is not a dict, or a dict that, if tagged \<^verbatim>\<open>"success"\<close>, lacks \<^verbatim>\<open>"input"\<close> or lacks
  \<^verbatim>\<open>"context"\<close> and one of \<^verbatim>\<open>"options"\<close> and \<^verbatim>\<open>"analysis"\<close>, and, if tagged \<^verbatim>\<open>"failed"\<close>,
  lacks \<^verbatim>\<open>"error"\<close> (a \<^verbatim>\<open>processing\<close> status, an unknown status, no status at all), the
  loop sleeps \<open>check_interval\<close> and goes on with one more retry counted and the last error
  unchanged.
  When the loop is not entered (the retries are used up, or the clock has reached the
  cutoff) the call raises the \<^verbatim>\<open>RuntimeError\<close> that carries the retry count, the time budget
  and the last error.
\<close>

theorem failed_status_is_retried:
  fixes c w rid rt max_retries max_time check_interval cutoff retries error
  defines "loop \<equiv> wait_loop c w rid rt max_retries max_time check_interval cutoff retries error"
    and "entered \<equiv> retries \<le> max_retries \<and> clock w (ticks w) < cutoff"
    and "status \<equiv> check_resource_type c (w\<lparr>ticks := Suc (ticks w)\<rparr>) rid rt"
  shows
   "(entered \<and> status = (Inr (JObj d), c', w') \<and>
     map_of d ''status'' = Some (JStr ''failed'') \<and> map_of d ''error'' = Some err \<longrightarrow>
       loop = wait_loop c' (w'\<lparr>trace := trace w' @ [Sleep check_interval]\<rparr>) rid rt max_retries
                max_time check_interval cutoff (retries + 1) err)
    \<and> (entered \<and> status = (Inr check, c', w') \<and>
       (\<forall>d. check = JObj d \<longrightarrow>
          (map_of d ''status'' \<noteq> Some (JStr ''success'') \<or> map_of d ''input'' = None \<or>
           (map_of d ''context'' = None \<and>
            (map_of d ''options'' = None \<or> map_of d ''analysis'' = None))) \<and>
          (map_of d ''status'' \<noteq> Some (JStr ''failed'') \<or> map_of d ''error'' = None)) \<longrightarrow>
       loop = wait_loop c' (w'\<lparr>trace := trace w' @ [Sleep check_interval]\<rparr>) rid rt max_retries
                max_time check_interval cutoff (retries + 1) error)
    \<and> (\<not> retries \<le> max_retries \<longrightarrow>
       loop = (Inl (RuntimeError (Retried retries max_time error)), c, w))
    \<and> (retries \<le> max_retries \<and> \<not> clock w (ticks w) < cutoff \<longrightarrow>
       loop = (Inl (RuntimeError (Retried retries max_time error)), c,
               w\<lparr>ticks := Suc (ticks w)\<rparr>))"
  unfolding loop_def entered_def status_def
  apply (intro conjI impI)
  subgoal by (elim conjE, rule wait_loop_again) (assumption+, rule match_check_failed, assumption+)
  subgoal by (elim conjE, rule wait_loop_again) (assumption+, rule match_check_other, assumption)
  subgoal by (rule wait_loop_stop)
  subgoal by (elim conjE, rule wait_loop_late)
  done

text \<open>
  On a running clock, a status that is \<^verbatim>\<open>failed\<close> with the error \<^verbatim>\<open>boom\<close> and then \<^verbatim>\<open>queued\<close>,
  one retry allowed: two checks, each followed by a sleep, then the error that reports 2
  retries and \<^verbatim>\<open>boom\<close>.
\<close>

theorem failed_status_is_retried_witness:
  "submit_and_wait_resource (test_client 3600)
       (ticking_world (script_stub [failed_example] queued_example)) ''text'' CONTEXT [] 1 600 10 =
     (Inl (RuntimeError (Retried 2 600 (JStr ''boom''))), test_client 3600,
      (ticking_world (script_stub [failed_example] queued_example))
        \<lparr>ticks := 6,
         trace := [Request (test_post ''text''), Request test_get, Sleep 10, Request test_get,
                   Sleep 10]\<rparr>)"
proof -
  let ?c = "test_client 3600"
  let ?w = "ticking_world (script_stub [failed_example] queued_example)"
  let ?P = "Request (test_post ''text'')"
  let ?G = "Request test_get"
  let ?loop = "\<lambda>n t k e. wait_loop ?c (?w\<lparr>ticks := n, trace := t\<rparr>) (JStr ''r1'') CONTEXT 1 600 10
                  (1 / 1000 + 600) k e"
  have start: "submit_and_wait_resource ?c ?w ''text'' CONTEXT [] 1 600 10 =
      ?loop 2 [?P] 0 (JStr '''')"
    by (simp add: submit_and_wait_script submit_request_test)
  have one: "?loop 2 [?P] 0 (JStr '''') = ?loop 4 [?P, ?G, Sleep 10] 1 (JStr ''boom'')"
    using failed_status_is_retried[where c = ?c and w = "?w\<lparr>ticks := 2, trace := [?P]\<rparr>"
        and d = "[(''status'', JStr ''failed''), (''error'', JStr ''boom'')]" and c' = ?c
        and w' = "?w\<lparr>ticks := 4, trace := [?P, ?G]\<rparr>"
        and err = "JStr ''boom''" and retries = 0 and max_retries = 1
        and cutoff = "1 / 1000 + 600" and rid = "JStr ''r1''" and rt = CONTEXT
        and max_time = 600 and check_interval = 10 and error = "JStr ''''", THEN conjunct1]
    by (simp add: check_script[where checks = "[failed_example]" and final = queued_example]
        fresh_ticking check_request_test failed_example_def)
  have two: "?loop 4 [?P, ?G, Sleep 10] 1 (JStr ''boom'') =
      ?loop 6 [?P, ?G, Sleep 10, ?G, Sleep 10] 2 (JStr ''boom'')"
    using failed_status_is_retried[where c = ?c
        and w = "?w\<lparr>ticks := 4, trace := [?P, ?G, Sleep 10]\<rparr>"
        and check = queued_example and c' = ?c
        and w' = "?w\<lparr>ticks := 6, trace := [?P, ?G, Sleep 10, ?G]\<rparr>"
        and retries = 1 and max_retries = 1
        and cutoff = "1 / 1000 + 600" and rid = "JStr ''r1''" and rt = CONTEXT
        and max_time = 600 and check_interval = 10 and error = "JStr ''boom''",
        THEN conjunct2, THEN conjunct1]
    by (simp add: check_script[where checks = "[failed_example]" and final = queued_example]
        fresh_ticking check_request_test queued_example_def test_get_def)
  have three: "?loop 6 [?P, ?G, Sleep 10, ?G, Sleep 10] 2 (JStr ''boom'') =
      (Inl (RuntimeError (Retried 2 600 (JStr ''boom''))), ?c,
       ?w\<lparr>ticks := 6, trace := [?P, ?G, Sleep 10, ?G, Sleep 10]\<rparr>)"
    using failed_status_is_retried[where c = ?c
        and w = "?w\<lparr>ticks := 6, trace := [?P, ?G, Sleep 10, ?G, Sleep 10]\<rparr>"
        and retries = 2 and max_retries = 1
        and cutoff = "1 / 1000 + 600" and rid = "JStr ''r1''" and rt = CONTEXT
        and max_time = 600 and check_interval = 10 and error = "JStr ''boom''",
        THEN conjunct2, THEN conjunct2, THEN conjunct1]
    by simp
  show ?thesis
    by (simp only: start one two three)
qed

text \<open>
  Claim C10 says that a \<^verbatim>\<open>success\<close> payload that matches neither success shape, for example
  one without a context object, makes the loop sleep and poll again. The payload
  \<^verbatim>\<open>{"status": "success", "context": null, "input": "text"}\<close> has no context object and no
  \<^verbatim>\<open>options\<close> or \<^verbatim>\<open>analysis\<close>, yet the first pattern of the \<^verbatim>\<open>match\<close> takes it, since a mapping
  pattern asks for the keys only, and \<^verbatim>\<open>{**data, "input": _input}\<close> raises \<^verbatim>\<open>TypeError\<close>: the
  call ends after one status check, without a sleep and without a second check.
\<close>

theorem null_context_is_not_retried:
  "match_check null_context_example (JStr '''') = Raise TypeError
   \<and> submit_and_wait_resource (test_client 3600) (test_world 0 (stub null_context_example))
       ''text'' CONTEXT [] 60 600 10 =
     (Inl TypeError, test_client 3600,
      (test_world 0 (stub null_context_example))
        \<lparr>ticks := 4, trace := [Request (test_post ''text''), Request test_get]\<rparr>)"
proof -
  let ?c = "test_client 3600"
  let ?w = "test_world 0 (stub null_context_example)"
  have m: "match_check null_context_example (JStr '''') = Raise TypeError"
    by (simp add: match_check_def context_shape_def has_status_def null_context_example_def)
  have k: "check_resource_type ?c (?w\<lparr>ticks := 3, trace := [Request (test_post ''text'')]\<rparr>)
       (JStr ''r1'') CONTEXT =
     (Inr null_context_example, ?c,
      ?w\<lparr>ticks := 4, trace := [Request (test_post ''text''), Request test_get]\<rparr>)"
    using check_test_world[where now = 0 and expiry = 3600 and p = null_context_example and n = 3
        and t = "[Request (test_post ''text'')]" and rid = "JStr ''r1''" and rt = CONTEXT]
    by (simp add: check_request_test)
  have "wait_loop ?c (?w\<lparr>ticks := 2, trace := [Request (test_post ''text'')]\<rparr>) (JStr ''r1'')
       CONTEXT 60 600 10 600 0 (JStr '''') =
     (Inl TypeError, ?c,
      ?w\<lparr>ticks := 4, trace := [Request (test_post ''text''), Request test_get]\<rparr>)"
    by (rule wait_loop_raise[where check = null_context_example]) (simp_all add: k m)
  then show ?thesis
    by (simp add: m submit_and_wait_stub submit_request_test)
qed

text \<open>
  Claim C10, amended to the keys that the patterns test. When the loop is entered and the
  status check yields a dict tagged \<^verbatim>\<open>"success"\<close> that lacks the key \<^verbatim>\<open>"context"\<close> or the key
  \<^verbatim>\<open>"input"\<close>, and lacks the key \<^verbatim>\<open>"options"\<close>, \<^verbatim>\<open>"input"\<close> or \<^verbatim>\<open>"analysis"\<close>, nothing is
  returned: the loop sleeps \<open>check_interval\<close> and goes on with one more retry counted and
  the last error unchanged.
\<close>

theorem unrecognized_success_is_retried:
  assumes "retries \<le> max_retries" and "clock w (ticks w) < cutoff"
    and "check_resource_type c (w\<lparr>ticks := Suc (ticks w)\<rparr>) rid rt = (Inr (JObj d), c', w')"
    and "map_of d ''status'' = Some (JStr ''success'')"
    and "map_of d ''context'' = None \<or> map_of d ''input'' = None"
    and "map_of d ''options'' = None \<or> map_of d ''input'' = None \<or> map_of d ''analysis'' = None"
  shows "wait_loop c w rid rt max_retries max_time check_interval cutoff retries error =
         wait_loop c' (w'\<lparr>trace := trace w' @ [Sleep check_interval]\<rparr>) rid rt max_retries
           max_time check_interval cutoff (retries + 1) error"
  using wait_loop_again[OF assms(1,2,3) match_check_unrecognized_success[OF assms(4,5,6)]] .

text \<open>
  A \<^verbatim>\<open>success\<close> status with a context and no input, no retry allowed: one check and one
  sleep, then the error that reports 1 retry.
\<close>

theorem unrecognized_success_is_retried_witness:
  "submit_and_wait_resource (test_client 3600)
       (test_world 0 (stub (JObj [(''status'', JStr ''success''), (''context'', JObj [])])))
       ''text'' CONTEXT [] 0 600 10 =
     (Inl (RuntimeError (Retried 1 600 (JStr ''''))), test_client 3600,
      (test_world 0 (stub (JObj [(''status'', JStr ''success''), (''context'', JObj [])])))
        \<lparr>ticks := 4,
         trace := [Request (test_post ''text''), Request test_get, Sleep 10]\<rparr>)"
proof -
  let ?c = "test_client 3600"
  let ?p = "JObj [(''status'', JStr ''success''), (''context'', JObj [])]"
  let ?w = "test_world 0 (stub ?p)"
  let ?w1 = "?w\<lparr>ticks := 2, trace := [Request (test_post ''text'')]\<rparr>"
  let ?w2 = "?w\<lparr>ticks := 4, trace := [Request (test_post ''text''), Request test_get, Sleep 10]\<rparr>"
  have c: "fresh ?c ?w1 (Suc (ticks ?w1))"
    by (simp add: fresh_test)
  have one: "wait_loop ?c ?w1 (JStr ''r1'') CONTEXT 0 600 10 600 0 (JStr '''') =
      wait_loop ?c ?w2 (JStr ''r1'') CONTEXT 0 600 10 600 1 (JStr '''')"
    using unrecognized_success_is_retried[where c = ?c and w = ?w1
        and d = "[(''status'', JStr ''success''), (''context'', JObj [])]" and c' = ?c
        and w' = "?w\<lparr>ticks := 4, trace := [Request (test_post ''text''), Request test_get]\<rparr>"
        and retries = 0 and max_retries = 0 and cutoff = 600
        and rid = "JStr ''r1''" and rt = CONTEXT and max_time = 600 and check_interval = 10
        and error = "JStr ''''"]
      check_stub_next[of ?c ?w1 ?p "JStr ''r1''" CONTEXT] c
    by (simp add: check_request_test)
  show ?thesis
    by (simp add: submit_and_wait_stub submit_request_test one wait_loop_stop)
qed

end
